theory Spec2Isabelle
  imports Complex_Main "HOL-Library.AList"
begin

section \<open>Data model of the backtest engine (backtest.py)\<close>

text \<open>
  Python floats are modelled as real numbers: no rounding, no infinities and no NaN,
  except where the source turns such a value into an exception or into a guard; those
  places are written out below.  Integers (share counts, day differences) are \<open>int\<close>.
\<close>

datatype error =
    IndexError          \<comment> \<open>\<open>xs[i]\<close> out of range\<close>
  | ValueError          \<comment> \<open>\<open>strptime\<close> on a bound that does not parse, \<open>int(nan)\<close>\<close>
  | OverflowError       \<comment> \<open>\<open>int(inf)\<close>\<close>
  | ZeroDivisionError   \<comment> \<open>division of a Python number by zero\<close>
  | EmptyHorizon        \<comment> \<open>named by the specification only; no statement of the source raises it\<close>
  | ConfigurationError  \<comment> \<open>named by the specification only; no statement of the source raises it\<close>

type_synonym code = string

text \<open>A \<open>datetime\<close> at midnight, as its proleptic Gregorian ordinal (\<open>date.toordinal()\<close>).\<close>
type_synonym date = int

text \<open>A price DataFrame, reduced to what the engine reads: its index and the column \<open>close\<close>.\<close>
type_synonym frame = "(date \<times> real) list"

text \<open>\<open>price_data\<close>: instrument code to DataFrame or \<open>None\<close>, in dict order.\<close>
type_synonym price_data = "(code \<times> frame option) list"

record signal =
  s_code :: code
  s_name :: "string option"

text \<open>\<open>signals\<close>: date string to the list of signalled instruments, in dict order.\<close>
type_synonym signals = "(string \<times> signal list) list"

record position =
  shares :: int
  avg_price :: real
  max_price :: real
  buy_date :: date
  name :: string

text \<open>\<open>positions\<close>: a dict, kept in insertion order.\<close>
type_synonym positions = "(code \<times> position) list"

datatype action = BUY | SELL

datatype reason =
    StopLoss real     \<comment> \<open>the f-string carrying the drawdown\<close>
  | SignalBuy         \<comment> \<open>the reason string of a signal entry\<close>
  | WeeklyRebalance   \<comment> \<open>the reason string of a rebalance sale\<close>

record trade =
  t_date :: string
  t_code :: code
  t_name :: "string option"
  t_action :: action
  t_reason :: reason
  t_price :: real
  t_shares :: int
  t_amount :: real
  t_commission :: real
  t_pnl :: real
  t_pnl_pct :: real
  t_holding_days :: int

record daily_record =
  d_date :: string
  d_cash :: real
  d_positions_count :: nat
  d_portfolio_value :: real
  d_return :: real

record engine =
  initial_capital :: real
  stop_loss_pct :: real
  commission_rate :: real
  rebalance_weekly :: bool
  rebalance_day :: int


section \<open>Calendar: the library calls on dates\<close>

text \<open>
  \<open>datetime.strptime(s, '%Y-%m-%d')\<close>, \<open>strftime('%Y-%m-%d')\<close>, \<open>weekday()\<close> and the
  difference of two dates in days, on ASCII strings.
\<close>

definition is_digit :: "char \<Rightarrow> bool" where
  "is_digit c = (48 \<le> (of_char c :: nat) \<and> (of_char c :: nat) \<le> 57)"

definition digit_val :: "char \<Rightarrow> nat" where
  "digit_val c = of_char c - 48"

definition is_leap :: "nat \<Rightarrow> bool" where
  "is_leap y = (y mod 4 = 0 \<and> (y mod 100 \<noteq> 0 \<or> y mod 400 = 0))"

definition days_in_month :: "nat \<Rightarrow> nat \<Rightarrow> nat" where
  "days_in_month y m =
     (if m = 2 then (if is_leap y then 29 else 28)
      else if m = 4 \<or> m = 6 \<or> m = 9 \<or> m = 11 then 30 else 31)"

definition days_before_year :: "nat \<Rightarrow> nat" where
  "days_before_year y = (y - 1) * 365 + (y - 1) div 4 - (y - 1) div 100 + (y - 1) div 400"

definition days_before_month :: "nat \<Rightarrow> nat \<Rightarrow> nat" where
  "days_before_month y m =
     [0, 0, 31, 59, 90, 120, 151, 181, 212, 243, 273, 304, 334] ! m
       + (if m > 2 \<and> is_leap y then 1 else 0)"

definition ymd2ord :: "nat \<Rightarrow> nat \<Rightarrow> nat \<Rightarrow> date" where
  "ymd2ord y m d = int (days_before_year y + days_before_month y m + d)"

text \<open>The month and day fields of the format: one digit, or two with the ranges below.\<close>
definition parse_month :: "string \<Rightarrow> nat option" where
  "parse_month s =
     (case s of
        [a] \<Rightarrow> if is_digit a \<and> a \<noteq> CHR ''0'' then Some (digit_val a) else None
      | [a, b] \<Rightarrow>
          if a = CHR ''1'' \<and> is_digit b \<and> digit_val b \<le> 2 then Some (10 + digit_val b)
          else if a = CHR ''0'' \<and> is_digit b \<and> b \<noteq> CHR ''0'' then Some (digit_val b)
          else None
      | _ \<Rightarrow> None)"

definition parse_day :: "string \<Rightarrow> nat option" where
  "parse_day s =
     (case s of
        [a] \<Rightarrow> if is_digit a \<and> a \<noteq> CHR ''0'' then Some (digit_val a) else None
      | [a, b] \<Rightarrow>
          if a = CHR ''3'' \<and> is_digit b \<and> digit_val b \<le> 1 then Some (30 + digit_val b)
          else if (a = CHR ''1'' \<or> a = CHR ''2'') \<and> is_digit b
            then Some (10 * digit_val a + digit_val b)
          else if (a = CHR ''0'' \<or> a = CHR '' '') \<and> is_digit b \<and> b \<noteq> CHR ''0''
            then Some (digit_val b)
          else None
      | _ \<Rightarrow> None)"

text \<open>\<open>None\<close> is the \<open>ValueError\<close> of \<open>strptime\<close>.\<close>
definition strptime :: "string \<Rightarrow> date option" where
  "strptime s =
     (case s of
        y1 # y2 # y3 # y4 # dash # rest \<Rightarrow>
          if is_digit y1 \<and> is_digit y2 \<and> is_digit y3 \<and> is_digit y4 \<and> dash = CHR ''-'' then
            (let ms = takeWhile (\<lambda>c. c \<noteq> CHR ''-'') rest;
                 ds = drop (length ms) rest;
                 y = 1000 * digit_val y1 + 100 * digit_val y2 + 10 * digit_val y3 + digit_val y4
             in case ds of
                  [] \<Rightarrow> None
                | _ # dd \<Rightarrow>
                    (case (parse_month ms, parse_day dd) of
                       (Some m, Some d) \<Rightarrow>
                         if 1 \<le> y \<and> d \<le> days_in_month y m then Some (ymd2ord y m d) else None
                     | _ \<Rightarrow> None))
          else None
      | _ \<Rightarrow> None)"

text \<open>\<open>_ord2ymd\<close> of the \<open>datetime\<close> module.\<close>
definition ord2ymd :: "date \<Rightarrow> nat \<times> nat \<times> nat" where
  "ord2ymd ordinal =
     (let n0 = nat ordinal - 1;
          n400 = n0 div 146097; n1 = n0 mod 146097;
          n100 = n1 div 36524; n2 = n1 mod 36524;
          n4 = n2 div 1461; n3 = n2 mod 1461;
          n1y = n3 div 365; n = n3 mod 365;
          year = n400 * 400 + 1 + n100 * 100 + n4 * 4 + n1y
      in if n1y = 4 \<or> n100 = 4 then (year - 1, 12, 31)
         else
           (let leapyear = (n1y = 3 \<and> (n4 \<noteq> 24 \<or> n100 = 3));
                month = (n + 50) div 32;
                preceding = [0, 0, 31, 59, 90, 120, 151, 181, 212, 243, 273, 304, 334] ! month
                              + (if month > 2 \<and> leapyear then 1 else 0)
            in if preceding > n
               then (let month' = month - 1;
                         preceding' = preceding
                           - ([0, 31, 28, 31, 30, 31, 30, 31, 31, 30, 31, 30, 31] ! month'
                              + (if month' = 2 \<and> leapyear then 1 else 0))
                     in (year, month', n - preceding' + 1))
               else (year, month, n - preceding + 1)))"

definition digit_char :: "nat \<Rightarrow> char" where
  "digit_char n = ''0123456789'' ! (n mod 10)"

definition pad2 :: "nat \<Rightarrow> string" where
  "pad2 n = [digit_char (n div 10), digit_char n]"

definition pad4 :: "nat \<Rightarrow> string" where
  "pad4 n = [digit_char (n div 1000), digit_char (n div 100), digit_char (n div 10), digit_char n]"

definition strftime :: "date \<Rightarrow> string" where
  "strftime d = (case ord2ymd d of (y, m, dd) \<Rightarrow> pad4 y @ ''-'' @ pad2 m @ ''-'' @ pad2 dd)"

text \<open>\<open>date.weekday()\<close>: Monday is 0; ordinal 1 is a Monday.\<close>
definition weekday :: "date \<Rightarrow> int" where
  "weekday d = (d + 6) mod 7"


section \<open>The trading-date universe\<close>

text \<open>
  \<open>_get_all_trading_dates\<close>, first loop: every key of \<open>signals\<close> is parsed inside
  \<open>try ... except: pass\<close>, so a key that does not parse adds nothing.
\<close>
definition signal_dates :: "signals \<Rightarrow> date list" where
  "signal_dates sigs = List.map_filter strptime (map fst sigs)"

text \<open>Second loop: the index of every DataFrame that is neither \<open>None\<close> nor empty.\<close>
definition frame_dates :: "frame option \<Rightarrow> date list" where
  "frame_dates df = (case df of None \<Rightarrow> [] | Some f \<Rightarrow> if f = [] then [] else map fst f)"

definition price_dates :: "price_data \<Rightarrow> date list" where
  "price_dates pd = concat (map (\<lambda>(code, df). frame_dates df) pd)"

text \<open>
  \<open>if start_date:\<close> and \<open>if end_date:\<close> pass over \<open>None\<close> and the empty string; any other
  bound goes through \<open>strptime\<close>, whose \<open>ValueError\<close> is not caught here.
\<close>
definition date_bound :: "string option \<Rightarrow> error + date option" where
  "date_bound b =
     (case b of
        None \<Rightarrow> Inr None
      | Some s \<Rightarrow>
          if s = [] then Inr None
          else (case strptime s of None \<Rightarrow> Inl ValueError | Some dt \<Rightarrow> Inr (Some dt)))"

definition get_all_trading_dates ::
  "signals \<Rightarrow> price_data \<Rightarrow> string option \<Rightarrow> string option \<Rightarrow> error + date list" where
  "get_all_trading_dates sigs pd start_date end_date =
     (let all_dates = sort (remdups (signal_dates sigs @ price_dates pd)) in
      case date_bound start_date of
        Inl e \<Rightarrow> Inl e
      | Inr start_dt \<Rightarrow>
          (let all_dates1 =
                 (case start_dt of None \<Rightarrow> all_dates
                  | Some s \<Rightarrow> filter (\<lambda>d. d \<ge> s) all_dates)
           in case date_bound end_date of
                Inl e \<Rightarrow> Inl e
              | Inr end_dt \<Rightarrow>
                  Inr (case end_dt of None \<Rightarrow> all_dates1
                       | Some e \<Rightarrow> filter (\<lambda>d. d \<le> e) all_dates1)))"

section \<open>Execution rules\<close>

text \<open>
  The guard \<open>code in price_data and price_data[code] is not None\<close> followed by
  \<open>current_date in df.index\<close>, and then \<open>df.loc[current_date, 'close']\<close>.
\<close>
definition close_on :: "price_data \<Rightarrow> code \<Rightarrow> date \<Rightarrow> real option" where
  "close_on pd c d =
     (case map_of pd c of
        Some (Some df) \<Rightarrow> map_of df d
      | _ \<Rightarrow> None)"

definition update_positions_high :: "positions \<Rightarrow> price_data \<Rightarrow> date \<Rightarrow> positions" where
  "update_positions_high ps pd current_date =
     map (\<lambda>(c, pos).
            case close_on pd c current_date of
              None \<Rightarrow> (c, pos)
            | Some current_price \<Rightarrow>
                if current_price > max_price pos then (c, pos\<lparr>max_price := current_price\<rparr>)
                else (c, pos)) ps"

text \<open>
  The sale of a whole position at \<open>current_price\<close>: the block that \<open>_check_stop_loss\<close> and
  \<open>_execute_weekly_rebalance\<close> both contain, differing in the reason only.
\<close>
definition net_proceeds :: "engine \<Rightarrow> position \<Rightarrow> real \<Rightarrow> real" where
  "net_proceeds eng pos current_price =
     (let sell_value = current_price * real_of_int (shares pos);
          commission = sell_value * commission_rate eng
      in sell_value - commission)"

definition sell_trade ::
  "engine \<Rightarrow> string \<Rightarrow> date \<Rightarrow> code \<Rightarrow> position \<Rightarrow> real \<Rightarrow> reason \<Rightarrow> trade" where
  "sell_trade eng date_str current_date c pos current_price rsn =
     (let sell_value = current_price * real_of_int (shares pos);
          commission = sell_value * commission_rate eng;
          net = sell_value - commission;
          cost = avg_price pos * real_of_int (shares pos);
          buy_commission = cost * commission_rate eng;
          total_cost = cost + buy_commission;
          pnl = net - total_cost;
          pnl_pct = (if total_cost > 0 then pnl / total_cost else 0)
      in \<lparr>t_date = date_str, t_code = c, t_name = None, t_action = SELL, t_reason = rsn,
          t_price = current_price, t_shares = shares pos, t_amount = sell_value,
          t_commission = commission, t_pnl = pnl, t_pnl_pct = pnl_pct,
          t_holding_days = current_date - buy_date pos\<rparr>)"

text \<open>
  \<open>_check_stop_loss\<close>, the loop over \<open>positions.items()\<close>: it accumulates the capital, the
  trades of the day and \<open>codes_to_remove\<close>.  The quotient is the real one; for a high-water
  price of 0 numpy gives an infinity or NaN instead, so the properties of this loop are
  stated for high-water prices other than 0.
\<close>
fun stop_loss_loop ::
  "engine \<Rightarrow> price_data \<Rightarrow> date \<Rightarrow> string \<Rightarrow> positions \<Rightarrow> real \<Rightarrow> trade list \<Rightarrow> code list
     \<Rightarrow> real \<times> trade list \<times> code list" where
  "stop_loss_loop eng pd current_date date_str [] capital trades_today codes_to_remove =
     (capital, trades_today, codes_to_remove)"
| "stop_loss_loop eng pd current_date date_str ((c, pos) # rest) capital trades_today codes_to_remove =
     (case close_on pd c current_date of
        None \<Rightarrow> stop_loss_loop eng pd current_date date_str rest capital trades_today codes_to_remove
      | Some current_price \<Rightarrow>
          (let highest_price = max_price pos;
               drawdown = (highest_price - current_price) / highest_price
           in if drawdown \<ge> stop_loss_pct eng
              then stop_loss_loop eng pd current_date date_str rest
                     (capital + net_proceeds eng pos current_price)
                     (trades_today @
                        [sell_trade eng date_str current_date c pos current_price (StopLoss drawdown)])
                     (codes_to_remove @ [c])
              else stop_loss_loop eng pd current_date date_str rest capital trades_today
                     codes_to_remove))"

text \<open>The second loop, \<open>del positions[code]\<close> for every code to remove.\<close>
definition check_stop_loss ::
  "engine \<Rightarrow> positions \<Rightarrow> price_data \<Rightarrow> real \<Rightarrow> date \<Rightarrow> string \<Rightarrow> positions \<times> real \<times> trade list" where
  "check_stop_loss eng ps pd capital current_date date_str =
     (case stop_loss_loop eng pd current_date date_str ps capital [] [] of
        (capital', trades_today, codes_to_remove) \<Rightarrow>
          (foldl (\<lambda>acc c. AList.delete c acc) ps codes_to_remove, capital', trades_today))"

text \<open>
  \<open>int(buy_value // (buy_price * 100)) * 100\<close>.  The close is a numpy float, so the floor
  division by zero does not raise but gives an infinity or NaN, which \<open>int\<close> refuses.
\<close>
definition lot_shares :: "real \<Rightarrow> real \<Rightarrow> error + int" where
  "lot_shares buy_value buy_price =
     (if buy_price * 100 = 0
      then (if buy_value = 0 then Inl ValueError else Inl OverflowError)
      else Inr (\<lfloor>buy_value / (buy_price * 100)\<rfloor> * 100))"

text \<open>
  \<open>signal.get('name', default)\<close>; the default of the source is a non-ASCII literal, written
  \<open>''unknown''\<close> here.
\<close>
definition signal_name :: "signal \<Rightarrow> string" where
  "signal_name sig = (case s_name sig of None \<Rightarrow> ''unknown'' | Some n \<Rightarrow> n)"

definition buy_trade :: "string \<Rightarrow> signal \<Rightarrow> real \<Rightarrow> int \<Rightarrow> real \<Rightarrow> trade" where
  "buy_trade date_str sig buy_price sh commission =
     \<lparr>t_date = date_str, t_code = s_code sig,
      t_name = Some (signal_name sig),
      t_action = BUY, t_reason = SignalBuy, t_price = buy_price, t_shares = sh,
      t_amount = buy_price * real_of_int sh, t_commission = commission,
      t_pnl = 0, t_pnl_pct = 0, t_holding_days = 0\<rparr>"

text \<open>
  \<open>_execute_buy_signals\<close>, the loop over \<open>buy_signals\<close>; \<open>n_signals\<close> is
  \<open>len(buy_signals)\<close>, the length of the whole list, on every iteration.  Each \<open>continue\<close>
  is a recursive call that leaves the state as it is.
\<close>
fun buy_loop ::
  "engine \<Rightarrow> price_data \<Rightarrow> date \<Rightarrow> string \<Rightarrow> nat \<Rightarrow> signal list \<Rightarrow> positions \<Rightarrow> real \<Rightarrow> trade list
     \<Rightarrow> error + (positions \<times> real \<times> trade list)" where
  "buy_loop eng pd current_date date_str n_signals [] ps capital trades_today =
     Inr (ps, capital, trades_today)"
| "buy_loop eng pd current_date date_str n_signals (sig # rest) ps capital trades_today =
     (if map_of ps (s_code sig) \<noteq> None
      then buy_loop eng pd current_date date_str n_signals rest ps capital trades_today
      else
        case close_on pd (s_code sig) current_date of
          None \<Rightarrow> buy_loop eng pd current_date date_str n_signals rest ps capital trades_today
        | Some buy_price \<Rightarrow>
            (let allocation = (if n_signals > 0 then capital / real n_signals else 0);
                 buy_value = min allocation (capital * 0.2)
             in case lot_shares buy_value buy_price of
                  Inl e \<Rightarrow> Inl e
                | Inr sh \<Rightarrow>
                    if sh \<le> 0
                    then buy_loop eng pd current_date date_str n_signals rest ps capital trades_today
                    else
                      (let cost = buy_price * real_of_int sh;
                           commission = cost * commission_rate eng;
                           total_cost = cost + commission
                       in if total_cost > capital
                          then buy_loop eng pd current_date date_str n_signals rest ps capital
                                 trades_today
                          else buy_loop eng pd current_date date_str n_signals rest
                                 (ps @ [(s_code sig,
                                         \<lparr>shares = sh, avg_price = buy_price, max_price = buy_price,
                                          buy_date = current_date,
                                          name = signal_name sig\<rparr>)])
                                 (capital - total_cost)
                                 (trades_today @ [buy_trade date_str sig buy_price sh commission]))))"

definition execute_buy_signals ::
  "engine \<Rightarrow> signal list \<Rightarrow> positions \<Rightarrow> price_data \<Rightarrow> real \<Rightarrow> date \<Rightarrow> string
     \<Rightarrow> error + (positions \<times> real \<times> trade list)" where
  "execute_buy_signals eng buy_signals ps pd capital current_date date_str =
     buy_loop eng pd current_date date_str (length buy_signals) buy_signals ps capital []"

definition is_rebalance_day :: "engine \<Rightarrow> date \<Rightarrow> bool" where
  "is_rebalance_day eng d = (weekday d = rebalance_day eng)"

text \<open>\<open>_execute_weekly_rebalance\<close>, the loop that sells what has a price bar today.\<close>
fun rebalance_sell_loop ::
  "engine \<Rightarrow> price_data \<Rightarrow> date \<Rightarrow> string \<Rightarrow> positions \<Rightarrow> real \<Rightarrow> trade list \<Rightarrow> real \<times> trade list" where
  "rebalance_sell_loop eng pd current_date date_str [] capital trades_today =
     (capital, trades_today)"
| "rebalance_sell_loop eng pd current_date date_str ((c, pos) # rest) capital trades_today =
     (case close_on pd c current_date of
        None \<Rightarrow> rebalance_sell_loop eng pd current_date date_str rest capital trades_today
      | Some current_price \<Rightarrow>
          rebalance_sell_loop eng pd current_date date_str rest
            (capital + net_proceeds eng pos current_price)
            (trades_today @
               [sell_trade eng date_str current_date c pos current_price WeeklyRebalance]))"

text \<open>
  After the loop the source assigns \<open>positions = {}\<close>, whatever the loop sold, and buys the
  signals of the day into the empty ledger.
\<close>
definition execute_weekly_rebalance ::
  "engine \<Rightarrow> positions \<Rightarrow> price_data \<Rightarrow> real \<Rightarrow> date \<Rightarrow> string \<Rightarrow> signal list
     \<Rightarrow> error + (positions \<times> real \<times> trade list)" where
  "execute_weekly_rebalance eng ps pd capital current_date date_str today_signals =
     (if ps = [] then Inr (ps, capital, [])
      else
        case rebalance_sell_loop eng pd current_date date_str ps capital [] of
          (capital', trades_today) \<Rightarrow>
            if today_signals \<noteq> []
            then (case execute_buy_signals eng today_signals [] pd capital' current_date date_str of
                    Inl e \<Rightarrow> Inl e
                  | Inr (ps', capital'', new_trades) \<Rightarrow>
                      Inr (ps', capital'', trades_today @ new_trades))
            else Inr ([], capital', trades_today))"

fun calculate_portfolio_value :: "positions \<Rightarrow> price_data \<Rightarrow> real \<Rightarrow> date \<Rightarrow> real" where
  "calculate_portfolio_value [] pd portfolio_value current_date = portfolio_value"
| "calculate_portfolio_value ((c, pos) # rest) pd portfolio_value current_date =
     (case close_on pd c current_date of
        None \<Rightarrow> calculate_portfolio_value rest pd portfolio_value current_date
      | Some current_price \<Rightarrow>
          calculate_portfolio_value rest pd
            (portfolio_value + current_price * real_of_int (shares pos)) current_date)"

text \<open>
  \<open>_record_daily_status\<close>: the daily record.  With \<open>initial_capital = 0\<close> no entry can be
  funded, the value is the Python number 0 and the division raises.
\<close>
definition record_daily_status ::
  "engine \<Rightarrow> string \<Rightarrow> positions \<Rightarrow> real \<Rightarrow> real \<Rightarrow> error + daily_record" where
  "record_daily_status eng date_str ps capital portfolio_value =
     (if initial_capital eng = 0 then Inl ZeroDivisionError
      else Inr \<lparr>d_date = date_str, d_cash = capital, d_positions_count = length ps,
                d_portfolio_value = portfolio_value,
                d_return = (portfolio_value / initial_capital eng - 1) * 100\<rparr>)"

section \<open>The day driver\<close>

text \<open>One iteration of the loop of \<open>run_backtest\<close>: steps 1 to 6 for \<open>current_date\<close>.\<close>
definition day_step ::
  "engine \<Rightarrow> signals \<Rightarrow> price_data \<Rightarrow> date \<Rightarrow> positions \<Rightarrow> real
     \<Rightarrow> error + (positions \<times> real \<times> daily_record \<times> trade list)" where
  "day_step eng sigs pd current_date ps capital =
     (let date_str = strftime current_date;
          ps1 = update_positions_high ps pd current_date
      in case check_stop_loss eng ps1 pd capital current_date date_str of
           (ps2, capital2, trades2) \<Rightarrow>
             (case (case map_of sigs date_str of
                      None \<Rightarrow> Inr (ps2, capital2, [])
                    | Some buy_signals \<Rightarrow>
                        execute_buy_signals eng buy_signals ps2 pd capital2 current_date date_str) of
                Inl e \<Rightarrow> Inl e
              | Inr (ps3, capital3, new_trades) \<Rightarrow>
                  (case (if rebalance_weekly eng \<and> is_rebalance_day eng current_date
                         then execute_weekly_rebalance eng ps3 pd capital3 current_date date_str
                                (case map_of sigs date_str of None \<Rightarrow> [] | Some l \<Rightarrow> l)
                         else Inr (ps3, capital3, [])) of
                     Inl e \<Rightarrow> Inl e
                   | Inr (ps4, capital4, rebalance_trades) \<Rightarrow>
                       (let portfolio_value =
                              calculate_portfolio_value ps4 pd capital4 current_date
                        in case record_daily_status eng date_str ps4 capital4 portfolio_value of
                             Inl e \<Rightarrow> Inl e
                           | Inr rec \<Rightarrow>
                               Inr (ps4, capital4, rec,
                                    trades2 @ new_trades @ rebalance_trades)))))"

fun day_loop ::
  "engine \<Rightarrow> signals \<Rightarrow> price_data \<Rightarrow> date list \<Rightarrow> positions \<Rightarrow> real
     \<Rightarrow> daily_record list \<Rightarrow> trade list \<Rightarrow> error + (daily_record list \<times> trade list)" where
  "day_loop eng sigs pd [] ps capital portfolio_history trade_history =
     Inr (portfolio_history, trade_history)"
| "day_loop eng sigs pd (current_date # rest) ps capital portfolio_history trade_history =
     (case day_step eng sigs pd current_date ps capital of
        Inl e \<Rightarrow> Inl e
      | Inr (ps', capital', rec, trades_today) \<Rightarrow>
          day_loop eng sigs pd rest ps' capital' (portfolio_history @ [rec])
            (trade_history @ trades_today))"

text \<open>
  \<open>run_backtest\<close> up to the end of the loop, on a fresh engine (the histories of an engine
  start empty).  The two progress messages
  read \<open>day_names[self.rebalance_day]\<close> (when weekly rebalancing is on) and
  \<open>all_dates[0]\<close>; both are list accesses that raise out of range.
\<close>
definition simulate ::
  "engine \<Rightarrow> signals \<Rightarrow> price_data \<Rightarrow> string option \<Rightarrow> string option
     \<Rightarrow> error + (date list \<times> daily_record list \<times> trade list)" where
  "simulate eng sigs pd start_date end_date =
     (if rebalance_weekly eng \<and> \<not> (- 7 \<le> rebalance_day eng \<and> rebalance_day eng < 7)
      then Inl IndexError
      else
        case get_all_trading_dates sigs pd start_date end_date of
          Inl e \<Rightarrow> Inl e
        | Inr all_dates \<Rightarrow>
            if all_dates = [] then Inl IndexError
            else (case day_loop eng sigs pd all_dates [] (initial_capital eng) [] [] of
                    Inl e \<Rightarrow> Inl e
                  | Inr (portfolio_history, trade_history) \<Rightarrow>
                      Inr (all_dates, portfolio_history, trade_history)))"


section \<open>The metrics calculator\<close>

record results =
  r_initial_capital :: real
  final_value :: real
  total_return_pct :: real
  annual_return_pct :: real
  max_drawdown_pct :: real
  sharpe_ratio :: real
  total_trades :: nat
  win_rate_pct :: real
  avg_win_pct :: real
  avg_loss_pct :: real
  avg_holding_days :: real

text \<open>\<open>Series.cummax()\<close>.\<close>
fun cummax_from :: "real \<Rightarrow> real list \<Rightarrow> real list" where
  "cummax_from m [] = []"
| "cummax_from m (x # xs) = max m x # cummax_from (max m x) xs"

definition cummax :: "real list \<Rightarrow> real list" where
  "cummax xs = (case xs of [] \<Rightarrow> [] | x # rest \<Rightarrow> x # cummax_from x rest)"

text \<open>\<open>Series.min()\<close> of a series that is not empty.\<close>
definition series_min :: "real list \<Rightarrow> real" where
  "series_min xs = fold min (tl xs) (hd xs)"

text \<open>
  \<open>Series.pct_change()\<close> without its first entry, which is NaN and which \<open>mean\<close> and
  \<open>std\<close> skip.
\<close>
definition pct_change :: "real list \<Rightarrow> real list" where
  "pct_change vs = map (\<lambda>(a, b). b / a - 1) (zip vs (tl vs))"

text \<open>\<open>Series.mean()\<close> and \<open>Series.std()\<close> (sample deviation); \<open>None\<close> is NaN.\<close>
definition series_mean :: "real list \<Rightarrow> real option" where
  "series_mean xs = (if xs = [] then None else Some (sum_list xs / real (length xs)))"

definition series_std :: "real list \<Rightarrow> real option" where
  "series_std xs =
     (if length xs < 2 then None
      else (let m = sum_list xs / real (length xs)
            in Some (sqrt (sum_list (map (\<lambda>x. (x - m)\<^sup>2) xs) / real (length xs - 1)))))"

text \<open>The mean of a column of a frame of trades that is not empty.\<close>
definition column_mean :: "real list \<Rightarrow> real" where
  "column_mean xs = sum_list xs / real (length xs)"

text \<open>
  \<open>_calculate_results\<close>.  \<open>Inr None\<close> is the early \<open>return\<close> that leaves \<open>self.results\<close>
  empty; \<open>all_dates[-1]\<close> and \<open>all_dates[0]\<close> raise on an empty list.  A comparison with NaN
  is false, so an undefined deviation takes the \<open>else\<close> branch.
\<close>
definition calculate_results ::
  "engine \<Rightarrow> date list \<Rightarrow> daily_record list \<Rightarrow> trade list \<Rightarrow> error + results option" where
  "calculate_results eng all_dates portfolio_history trade_history =
     (if portfolio_history = [] then Inr None
      else
        (let pv = map d_portfolio_value portfolio_history;
             final = last pv;
             total_return = (final / initial_capital eng - 1) * 100
         in if all_dates = [] then Inl IndexError
            else
              (let days = last all_dates - hd all_dates;
                   years = real_of_int days / 365.25;
                   annual_return =
                     (if years > 0
                      then ((final / initial_capital eng) powr (1 / years) - 1) * 100
                      else 0);
                   cm = cummax pv;
                   drawdown = map (\<lambda>(v, m). (v - m) / m * 100) (zip pv cm);
                   max_drawdown = series_min drawdown;
                   daily_return = pct_change pv;
                   sharpe =
                     (case (series_mean daily_return, series_std daily_return) of
                        (Some avg, Some sd) \<Rightarrow>
                          if sd * 100 > 0
                          then (avg * 100 - 3 / 252) / (sd * 100) * sqrt 252
                          else 0
                      | _ \<Rightarrow> 0);
                   buy_trades = filter (\<lambda>t. t_action t = BUY) trade_history;
                   sell_trades = filter (\<lambda>t. t_action t = SELL) trade_history;
                   win_trades = filter (\<lambda>t. t_pnl t > 0) sell_trades;
                   loss_trades = filter (\<lambda>t. t_pnl t \<le> 0) sell_trades
               in Inr (Some
                    \<lparr>r_initial_capital = initial_capital eng,
                     final_value = final,
                     total_return_pct = total_return,
                     annual_return_pct = annual_return,
                     max_drawdown_pct = max_drawdown,
                     sharpe_ratio = sharpe,
                     total_trades =
                       (if trade_history \<noteq> [] then length buy_trades + length sell_trades else 0),
                     win_rate_pct =
                       (if trade_history \<noteq> [] \<and> length sell_trades > 0
                        then real (length win_trades) / real (length sell_trades) * 100 else 0),
                     avg_win_pct =
                       (if trade_history \<noteq> [] \<and> length win_trades > 0
                        then column_mean (map t_pnl_pct win_trades) else 0),
                     avg_loss_pct =
                       (if trade_history \<noteq> [] \<and> length loss_trades > 0
                        then column_mean (map t_pnl_pct loss_trades) else 0),
                     avg_holding_days =
                       (if trade_history \<noteq> [] \<and> length sell_trades > 0
                        then column_mean (map (\<lambda>t. real_of_int (t_holding_days t)) sell_trades)
                        else 0)\<rparr>))))"

text \<open>
  \<open>run_backtest\<close>: the loop, then the metrics; the value returned is \<open>self.results\<close>, given
  here with the two histories the engine holds after the run.
\<close>
definition run_backtest ::
  "engine \<Rightarrow> signals \<Rightarrow> price_data \<Rightarrow> string option \<Rightarrow> string option
     \<Rightarrow> error + (results option \<times> daily_record list \<times> trade list)" where
  "run_backtest eng sigs pd start_date end_date =
     (case simulate eng sigs pd start_date end_date of
        Inl e \<Rightarrow> Inl e
      | Inr (all_dates, portfolio_history, trade_history) \<Rightarrow>
          (case calculate_results eng all_dates portfolio_history trade_history of
             Inl e \<Rightarrow> Inl e
           | Inr r \<Rightarrow> Inr (r, portfolio_history, trade_history)))"


section \<open>Notions used to state the properties\<close>

text \<open>A date lies within the parsed bounds of the horizon; an absent bound admits every date.\<close>
definition in_bounds :: "date option \<Rightarrow> date option \<Rightarrow> date \<Rightarrow> bool" where
  "in_bounds lo hi d =
     ((case lo of None \<Rightarrow> True | Some s \<Rightarrow> s \<le> d) \<and> (case hi of None \<Rightarrow> True | Some e \<Rightarrow> d \<le> e))"

text \<open>
  From the words of C5: the close of the latest bar of an instrument on or before a date
  (a price series is sorted by date), and the value of a portfolio in which a position
  without a bar today is carried at that close.
\<close>
definition last_known_close :: "price_data \<Rightarrow> code \<Rightarrow> date \<Rightarrow> real option" where
  "last_known_close pd c d =
     (case map_of pd c of
        Some (Some df) \<Rightarrow>
          (case filter (\<lambda>(d', p). d' \<le> d) df of
             [] \<Rightarrow> None
           | b # bs \<Rightarrow> Some (snd (last (b # bs))))
      | _ \<Rightarrow> None)"

definition carried_forward_value :: "positions \<Rightarrow> price_data \<Rightarrow> real \<Rightarrow> date \<Rightarrow> real" where
  "carried_forward_value ps pd cash d =
     cash + (\<Sum>(c, pos) \<leftarrow> ps.
               case last_known_close pd c d of
                 None \<Rightarrow> 0
               | Some p \<Rightarrow> p * real_of_int (shares pos))"

text \<open>The positions that have a price bar on a date.\<close>
definition priced_today :: "price_data \<Rightarrow> date \<Rightarrow> positions \<Rightarrow> positions" where
  "priced_today pd d ps = filter (\<lambda>(c, pos). close_on pd c d \<noteq> None) ps"

text \<open>
  From the words of C4: the drawdown of a position at today's close, and the stop-loss
  trigger of a ledger entry that has a price bar today.
\<close>
definition drawdown :: "position \<Rightarrow> real \<Rightarrow> real" where
  "drawdown pos today_close = (max_price pos - today_close) / max_price pos"

definition stop_loss_triggered :: "engine \<Rightarrow> price_data \<Rightarrow> date \<Rightarrow> code \<times> position \<Rightarrow> bool" where
  "stop_loss_triggered eng pd d cp =
     (case close_on pd (fst cp) d of
        None \<Rightarrow> False
      | Some today_close \<Rightarrow> drawdown (snd cp) today_close \<ge> stop_loss_pct eng)"

text \<open>
  From the words of C3, with \<open>n\<close> the number of signals in the list of the day: the share
  count of an entry, and the entry of one candidate into a ledger with the cash at hand.
\<close>
definition entry_shares :: "nat \<Rightarrow> real \<Rightarrow> real \<Rightarrow> int" where
  "entry_shares n cash price_today = \<lfloor>min (cash / real n) (0.2 * cash) / (price_today * 100)\<rfloor> * 100"

definition signal_entry ::
  "engine \<Rightarrow> price_data \<Rightarrow> date \<Rightarrow> string \<Rightarrow> nat \<Rightarrow> positions \<times> real \<times> trade list \<Rightarrow> signal
     \<Rightarrow> positions \<times> real \<times> trade list" where
  "signal_entry eng pd d date_str n st sig =
     (case st of
        (ledger, cash, trades) \<Rightarrow>
          if s_code sig \<in> fst ` set ledger then st
          else
            (case close_on pd (s_code sig) d of
               None \<Rightarrow> st
             | Some price_today \<Rightarrow>
                 (let sh = entry_shares n cash price_today;
                      gross = price_today * real_of_int sh;
                      fee = gross * commission_rate eng
                  in if sh = 0 \<or> gross + fee > cash then st
                     else (ledger @ [(s_code sig,
                                      \<lparr>shares = sh, avg_price = price_today,
                                       max_price = price_today, buy_date = d,
                                       name = signal_name sig\<rparr>)],
                           cash - (gross + fee),
                           trades @ [\<lparr>t_date = date_str, t_code = s_code sig,
                                      t_name = Some (signal_name sig), t_action = BUY,
                                      t_reason = SignalBuy, t_price = price_today,
                                      t_shares = sh, t_amount = gross, t_commission = fee,
                                      t_pnl = 0, t_pnl_pct = 0, t_holding_days = 0\<rparr>]))))"

text \<open>
  What a trade settles on the cash account (a BUY debits gross plus commission, a SELL
  credits gross minus commission), and the cash balances before, between and after the
  trades of a list, starting from a given balance.
\<close>
definition settlement :: "trade \<Rightarrow> real" where
  "settlement t =
     (case t_action t of
        BUY \<Rightarrow> - (t_amount t + t_commission t)
      | SELL \<Rightarrow> t_amount t - t_commission t)"

fun balances :: "real \<Rightarrow> trade list \<Rightarrow> real list" where
  "balances c [] = [c]"
| "balances c (t # ts) = c # balances (c + settlement t) ts"

text \<open>Every close of every price series is non-negative.\<close>
definition prices_nonneg :: "price_data \<Rightarrow> bool" where
  "prices_nonneg pd =
     (\<forall>(c, df) \<in> set pd. case df of None \<Rightarrow> True | Some f \<Rightarrow> (\<forall>(d, p) \<in> set f. 0 \<le> p))"

text \<open>Every position of a ledger holds a positive number of shares.\<close>
definition ledger_ok :: "positions \<Rightarrow> bool" where
  "ledger_ok ps = (\<forall>(c, pos) \<in> set ps. 0 < shares pos)"

text \<open>
  A block of trades takes the cash from one balance to another, and no balance along the
  block is negative when the first one is not.
\<close>
definition settles :: "real \<Rightarrow> trade list \<Rightarrow> real \<Rightarrow> bool" where
  "settles cash ts cash' =
     (cash' = cash + (\<Sum>t \<leftarrow> ts. settlement t) \<and> (0 \<le> cash \<longrightarrow> (\<forall>b \<in> set (balances cash ts). 0 \<le> b)))"

section \<open>Unfolding for evaluation\<close>

lemmas calendar_defs = strptime_def is_digit_def digit_val_def parse_month_def parse_day_def
  ymd2ord_def days_before_year_def days_before_month_def is_leap_def days_in_month_def
  strftime_def ord2ymd_def pad2_def pad4_def digit_char_def weekday_def

lemmas engine_defs = signal_dates_def frame_dates_def price_dates_def date_bound_def
  get_all_trading_dates_def close_on_def update_positions_high_def net_proceeds_def
  sell_trade_def check_stop_loss_def lot_shares_def buy_trade_def signal_name_def
  execute_buy_signals_def is_rebalance_day_def execute_weekly_rebalance_def
  record_daily_status_def day_step_def simulate_def List.map_filter_def AList.delete_eq

section \<open>The trading-date universe: signal keys and price dates\<close>

lemma signal_dates_drop_unparsable:
  "signal_dates (filter (\<lambda>(k, l). strptime k \<noteq> None) sigs) = signal_dates sigs"
  by (induction sigs) (auto simp: signal_dates_def List.map_filter_def)

lemma set_price_dates:
  "set (price_dates pd) = {d. \<exists>c f x. (c, Some f) \<in> set pd \<and> (d, x) \<in> set f}"
proof -
  have "set (frame_dates df) = {d. \<exists>f x. df = Some f \<and> (d, x) \<in> set f}" for df
    by (cases df) (force simp: frame_dates_def)+
  then show ?thesis
    by (fastforce simp: price_dates_def)
qed

lemma set_get_all_trading_dates:
  assumes "date_bound start_date = Inr lo" and "date_bound end_date = Inr hi"
  shows "\<exists>ds. get_all_trading_dates sigs pd start_date end_date = Inr ds \<and>
           set ds = {d \<in> set (signal_dates sigs) \<union> set (price_dates pd). in_bounds lo hi d}"
  using assms
  by (cases lo; cases hi) (auto simp: get_all_trading_dates_def in_bounds_def Let_def)

text \<open>
  C10: when the trading-date universe is built, a key of the signal feed that does not
  parse as a date is ignored: the universe (or the error of a bad bound) is the one obtained
  after deleting every such key, and with no bounds the function returns a list whatever the
  keys are.  Every date of a price series that is not \<open>None\<close> enters the universe, signalled
  or not: all of them without bounds, and those within the bounds otherwise.
\<close>
theorem unparsable_keys_ignored_price_dates_kept:
  "get_all_trading_dates sigs pd start_date end_date =
     get_all_trading_dates (filter (\<lambda>(k, l). strptime k \<noteq> None) sigs) pd start_date end_date
   \<and> (\<exists>ds. get_all_trading_dates sigs pd None None = Inr ds \<and>
         (\<forall>c f d x. (c, Some f) \<in> set pd \<and> (d, x) \<in> set f \<longrightarrow> d \<in> set ds))
   \<and> (\<forall>lo hi ds c f d x.
         date_bound start_date = Inr lo \<and> date_bound end_date = Inr hi \<and>
         get_all_trading_dates sigs pd start_date end_date = Inr ds \<and>
         (c, Some f) \<in> set pd \<and> (d, x) \<in> set f \<and> in_bounds lo hi d \<longrightarrow> d \<in> set ds)"
proof (intro conjI allI impI)
  show "get_all_trading_dates sigs pd start_date end_date =
     get_all_trading_dates (filter (\<lambda>(k, l). strptime k \<noteq> None) sigs) pd start_date end_date"
    by (simp only: get_all_trading_dates_def signal_dates_drop_unparsable)
next
  have b: "date_bound None = Inr None" by (simp add: date_bound_def)
  from set_get_all_trading_dates [OF b b, of sigs pd]
  obtain ds where ds: "get_all_trading_dates sigs pd None None = Inr ds"
    and s: "set ds = {d \<in> set (signal_dates sigs) \<union> set (price_dates pd). in_bounds None None d}"
    by blast
  have "\<forall>c f d x. (c, Some f) \<in> set pd \<and> (d, x) \<in> set f \<longrightarrow> d \<in> set ds"
    unfolding s set_price_dates by (auto simp: in_bounds_def)
  with ds show "\<exists>ds. get_all_trading_dates sigs pd None None = Inr ds \<and>
         (\<forall>c f d x. (c, Some f) \<in> set pd \<and> (d, x) \<in> set f \<longrightarrow> d \<in> set ds)"
    by blast
next
  fix lo hi ds c f d x
  assume a: "date_bound start_date = Inr lo \<and> date_bound end_date = Inr hi \<and>
         get_all_trading_dates sigs pd start_date end_date = Inr ds \<and>
         (c, Some f) \<in> set pd \<and> (d, x) \<in> set f \<and> in_bounds lo hi d"
  from set_get_all_trading_dates [of start_date lo end_date hi sigs pd] a
  have "set ds = {d \<in> set (signal_dates sigs) \<union> set (price_dates pd). in_bounds lo hi d}"
    by auto
  with a show "d \<in> set ds"
    unfolding set_price_dates by blast
qed

text \<open>
  At a feed with the key \<open>''soon''\<close> and a price bar on 2023-01-09 (ordinal 738529) that no
  signal names: the key adds nothing, the bar's date is in the universe.
\<close>
theorem unparsable_keys_ignored_witness:
  "get_all_trading_dates [(''soon'', []), (''2023-01-02'', [])] [(''A'', Some [(738529, 10)])] None None
     = Inr [738522, 738529]
   \<and> get_all_trading_dates [(''soon'', []), (''2023-01-02'', [])] [(''A'', Some [(738529, 10)])] None None
     = get_all_trading_dates [(''2023-01-02'', [])] [(''A'', Some [(738529, 10)])] None None
   \<and> get_all_trading_dates [(''soon'', []), (''2023-01-02'', [])] [(''A'', Some [(738529, 10)])]
        (Some ''2023-01-05'') None = Inr [738529]"
  using unparsable_keys_ignored_price_dates_kept
     [of "[(''soon'', []), (''2023-01-02'', [])]" "[(''A'', Some [(738529, 10)])]" None None]
  by (simp add: calendar_defs engine_defs)

section \<open>Which exceptions a run can raise\<close>










section \<open>The empty horizon\<close>





section \<open>Valuation, rebalancing without a price bar, configuration\<close>

lemma calculate_portfolio_value_sum:
  "calculate_portfolio_value ps pd v d =
     v + (\<Sum>(c, pos) \<leftarrow> priced_today pd d ps. the (close_on pd c d) * real_of_int (shares pos))"
  by (induction ps arbitrary: v) (auto simp: priced_today_def)

lemma day_step_record:
  "day_step eng sigs pd d ps0 cash0 = Inr (ps', cash', rec, trades)
     \<Longrightarrow> d_cash rec = cash' \<and> d_positions_count rec = length ps'
         \<and> d_portfolio_value rec = calculate_portfolio_value ps' pd cash' d
         \<and> d_date rec = strftime d"
  by (auto simp: day_step_def Let_def record_daily_status_def
           split: prod.splits sum.splits if_splits)

text \<open>
  C5, as the code has it: the portfolio value of a date is the cash plus shares times
  today's close, summed over exactly the open positions that have a price bar on that date,
  and this is the value the daily record holds.  A position without a bar today adds
  nothing to the total; it stays in the ledger.
\<close>
theorem portfolio_value_counts_priced_positions_only:
  "calculate_portfolio_value ps pd cash d =
     cash + (\<Sum>(c, pos) \<leftarrow> priced_today pd d ps. the (close_on pd c d) * real_of_int (shares pos))
   \<and> (close_on pd c d = None \<longrightarrow>
        calculate_portfolio_value (ps @ [(c, pos)]) pd cash d = calculate_portfolio_value ps pd cash d)
   \<and> (day_step eng sigs pd d ps0 cash0 = Inr (ps', cash', rec, trades) \<longrightarrow>
        d_portfolio_value rec =
          d_cash rec + (\<Sum>(c, pos) \<leftarrow> priced_today pd d ps'.
                          the (close_on pd c d) * real_of_int (shares pos)))"
  using day_step_record [of eng sigs pd d ps0 cash0 ps' cash' rec trades]
  by (auto simp: calculate_portfolio_value_sum priced_today_def)

text \<open>
  Position A has no bar on ordinal 738523: the total is the cash 500 plus 200 shares of B
  at 5, with or without A in the ledger.
\<close>
theorem portfolio_value_witness:
  "close_on [(''A'', Some [(738522, 10)]), (''B'', Some [(738522, 4), (738523, 5)])] ''A'' 738523 = None
   \<and> calculate_portfolio_value
        [(''B'', \<lparr>shares = 200, avg_price = 4, max_price = 5, buy_date = 738522, name = ''b''\<rparr>),
         (''A'', \<lparr>shares = 100, avg_price = 10, max_price = 10, buy_date = 738522, name = ''a''\<rparr>)]
        [(''A'', Some [(738522, 10)]), (''B'', Some [(738522, 4), (738523, 5)])] 500 738523 = 1500
   \<and> calculate_portfolio_value
        [(''B'', \<lparr>shares = 200, avg_price = 4, max_price = 5, buy_date = 738522, name = ''b''\<rparr>)]
        [(''A'', Some [(738522, 10)]), (''B'', Some [(738522, 4), (738523, 5)])] 500 738523 = 1500"
  using portfolio_value_counts_priced_positions_only
    [of "[(''B'', \<lparr>shares = 200, avg_price = 4, max_price = 5, buy_date = 738522, name = ''b''\<rparr>)]"
        "[(''A'', Some [(738522, 10)]), (''B'', Some [(738522, 4), (738523, 5)])]" 500 738523
        "''A''" "\<lparr>shares = 100, avg_price = 10, max_price = 10, buy_date = 738522, name = ''a''\<rparr>"]
  by (simp add: close_on_def priced_today_def)

text \<open>
  C5 as stated fails: 100 shares whose last known close is 10 and that have no bar today are
  valued at nothing, not at 1000.
\<close>
theorem unpriced_position_not_carried_forward:
  "close_on [(''A'', Some [(738522, 10)])] ''A'' 738523 = None
   \<and> last_known_close [(''A'', Some [(738522, 10)])] ''A'' 738523 = Some 10
   \<and> calculate_portfolio_value
        [(''A'', \<lparr>shares = 100, avg_price = 10, max_price = 10, buy_date = 738522, name = ''a''\<rparr>)]
        [(''A'', Some [(738522, 10)])] 500 738523 = 500
   \<and> carried_forward_value
        [(''A'', \<lparr>shares = 100, avg_price = 10, max_price = 10, buy_date = 738522, name = ''a''\<rparr>)]
        [(''A'', Some [(738522, 10)])] 500 738523 = 1500"
  by (simp add: close_on_def last_known_close_def carried_forward_value_def)

text \<open>
  C1 at a failing input.  A position in A (19900 shares at cost 10) has no price bar on
  Monday 2023-01-09.  \<open>_execute_weekly_rebalance\<close> returns an empty ledger, the same cash and
  no trade: the position is gone without proceeds.  \<open>_check_stop_loss\<close> on the same state
  keeps it.  The run that reaches this state is the third conjunct: the ledger holds one
  position after 2023-01-02 and none after 2023-01-09, with equal cash and no trade dated
  2023-01-09.
\<close>
theorem rebalance_drops_unpriced_position:
  "execute_weekly_rebalance
      \<lparr>initial_capital = 1000000, stop_loss_pct = 0.04, commission_rate = 0.0003,
       rebalance_weekly = True, rebalance_day = 0\<rparr>
      [(''A'', \<lparr>shares = 19900, avg_price = 10, max_price = 10, buy_date = 738522, name = ''a''\<rparr>)]
      [(''A'', Some [(738522, 10)])] 800820.3 738529 ''2023-01-09'' []
     = Inr ([], 800820.3, [])
   \<and> check_stop_loss
      \<lparr>initial_capital = 1000000, stop_loss_pct = 0.04, commission_rate = 0.0003,
       rebalance_weekly = True, rebalance_day = 0\<rparr>
      [(''A'', \<lparr>shares = 19900, avg_price = 10, max_price = 10, buy_date = 738522, name = ''a''\<rparr>)]
      [(''A'', Some [(738522, 10)])] 800820.3 738529 ''2023-01-09''
     = ([(''A'', \<lparr>shares = 19900, avg_price = 10, max_price = 10, buy_date = 738522, name = ''a''\<rparr>)],
        800820.3, [])
   \<and> (case simulate
        \<lparr>initial_capital = 1000000, stop_loss_pct = 0.04, commission_rate = 0.0003,
         rebalance_weekly = True, rebalance_day = 0\<rparr>
        [(''2023-01-02'', [\<lparr>s_code = ''A'', s_name = Some ''a''\<rparr>]), (''2023-01-09'', [])]
        [(''A'', Some [(738522, 10)])] None None of
        Inl e \<Rightarrow> None
      | Inr (ds, h, t) \<Rightarrow>
          Some (ds, map d_positions_count h, map d_cash h, map (\<lambda>x. (t_date x, t_action x, t_shares x)) t))
     = Some ([738522, 738529], [1, 0], [800820.3, 800820.3],
             [(''2023-01-02'', BUY, 20000), (''2023-01-02'', SELL, 20000),
              (''2023-01-02'', BUY, 19900)])"
  by (simp add: calendar_defs engine_defs Let_def)





section \<open>Stop-loss\<close>

lemma stop_loss_loop_eq:
  "stop_loss_loop eng pd d ds ps cash tr rm =
     (cash + (\<Sum>(c, pos) \<leftarrow> filter (stop_loss_triggered eng pd d) ps.
                net_proceeds eng pos (the (close_on pd c d))),
      tr @ map (\<lambda>(c, pos). sell_trade eng ds d c pos (the (close_on pd c d))
                               (StopLoss (drawdown pos (the (close_on pd c d)))))
             (filter (stop_loss_triggered eng pd d) ps),
      rm @ map fst (filter (stop_loss_triggered eng pd d) ps))"
proof (induction ps arbitrary: cash tr rm)
  case Nil
  then show ?case by simp
next
  case (Cons cp ps)
  obtain c pos where cp: "cp = (c, pos)" by (cases cp)
  show ?case
    unfolding cp
    by (cases "close_on pd c d")
       (simp_all add: Cons.IH stop_loss_triggered_def drawdown_def Let_def)
qed

lemma foldl_delete:
  "foldl (\<lambda>acc c. AList.delete c acc) ps cs = filter (\<lambda>(c, pos). c \<notin> set cs) ps"
  unfolding AList.delete_eq
  by (induction cs arbitrary: ps) (auto simp: case_prod_unfold intro: filter_cong)

lemma distinct_keys_filter:
  assumes "distinct (map fst ps)"
  shows "filter (\<lambda>(c, pos). c \<notin> fst ` {x \<in> set ps. P x}) ps = filter (\<lambda>cp. \<not> P cp) ps"
proof (rule filter_cong [OF refl])
  fix cp assume m: "cp \<in> set ps"
  obtain c pos where cp: "cp = (c, pos)" by (cases cp)
  have "c \<in> fst ` {x \<in> set ps. P x} \<longleftrightarrow> P (c, pos)"
  proof
    assume "c \<in> fst ` {x \<in> set ps. P x}"
    then obtain pos' where p: "(c, pos') \<in> set ps" "P (c, pos')" by auto
    from assms p(1) m have "pos' = pos"
      unfolding cp by (meson eq_key_imp_eq_value)
    with p show "P (c, pos)" by simp
  next
    assume "P (c, pos)"
    with m show "c \<in> fst ` {x \<in> set ps. P x}" unfolding cp by force
  qed
  then show "(case cp of (c, pos) \<Rightarrow> c \<notin> fst ` {x \<in> set ps. P x}) = (\<not> P cp)"
    unfolding cp by simp
qed

lemma check_stop_loss_eq:
  assumes "distinct (map fst ps)"
  shows "check_stop_loss eng ps pd cash d ds =
     (filter (\<lambda>cp. \<not> stop_loss_triggered eng pd d cp) ps,
      cash + (\<Sum>(c, pos) \<leftarrow> filter (stop_loss_triggered eng pd d) ps.
                net_proceeds eng pos (the (close_on pd c d))),
      map (\<lambda>(c, pos). sell_trade eng ds d c pos (the (close_on pd c d))
                               (StopLoss (drawdown pos (the (close_on pd c d)))))
             (filter (stop_loss_triggered eng pd d) ps))"
  by (simp add: check_stop_loss_def stop_loss_loop_eq foldl_delete distinct_keys_filter [OF assms])

lemma sum_net_proceeds:
  "(\<Sum>(c, pos) \<leftarrow> qs. net_proceeds eng pos (the (close_on pd c d))) =
   (\<Sum>t \<leftarrow> map (\<lambda>(c, pos). sell_trade eng ds d c pos (the (close_on pd c d)) (r c pos)) qs.
        t_amount t - t_commission t)"
  by (induction qs) (auto simp: net_proceeds_def sell_trade_def Let_def)

text \<open>
  C4: for a ledger with distinct codes and non-zero high-water prices, \<open>_check_stop_loss\<close>
  removes exactly the positions that have a price bar today and whose drawdown
  (high-water price minus today's close, over the high-water price) reaches the threshold,
  and keeps every other position as it is.  It records one SELL trade per removed position,
  in ledger order, and credits the cash with gross minus commission of each.  Every such
  trade sells the whole position at today's close, with gross = price times shares,
  commission = gross times rate, P&L = net proceeds minus the cost basis grown by the
  entry commission, the drawdown as its reason, and that drawdown is at least the threshold.
\<close>
theorem stop_loss_liquidates_exactly_the_triggered:
  assumes "distinct (map fst ps)"
    and "\<forall>(c, pos) \<in> set ps. max_price pos \<noteq> 0"
    and "check_stop_loss eng ps pd cash d date_str = (ps', cash', trades)"
  shows "ps' = filter (\<lambda>cp. \<not> stop_loss_triggered eng pd d cp) ps
    \<and> map t_code trades = map fst (filter (stop_loss_triggered eng pd d) ps)
    \<and> cash' = cash + (\<Sum>t \<leftarrow> trades. t_amount t - t_commission t)
    \<and> (\<forall>t \<in> set trades. \<exists>pos today_close.
          (t_code t, pos) \<in> set ps \<and> close_on pd (t_code t) d = Some today_close
          \<and> t_action t = SELL \<and> t_date t = date_str
          \<and> t_price t = today_close \<and> t_shares t = shares pos
          \<and> t_amount t = today_close * real_of_int (shares pos)
          \<and> t_commission t = t_amount t * commission_rate eng
          \<and> t_pnl t = (t_amount t - t_commission t)
                       - (avg_price pos * real_of_int (shares pos)
                          + avg_price pos * real_of_int (shares pos) * commission_rate eng)
          \<and> t_reason t = StopLoss ((max_price pos - t_price t) / max_price pos)
          \<and> (max_price pos - t_price t) / max_price pos \<ge> stop_loss_pct eng)"
proof -
  let ?trig = "filter (stop_loss_triggered eng pd d) ps"
  let ?sale = "\<lambda>(c, pos). sell_trade eng date_str d c pos (the (close_on pd c d))
                               (StopLoss (drawdown pos (the (close_on pd c d))))"
  from assms(3) check_stop_loss_eq [OF assms(1), of eng pd cash d date_str]
  have ps': "ps' = filter (\<lambda>cp. \<not> stop_loss_triggered eng pd d cp) ps"
    and cash': "cash' = cash + (\<Sum>(c, pos) \<leftarrow> ?trig. net_proceeds eng pos (the (close_on pd c d)))"
    and trades: "trades = map ?sale ?trig"
    by simp_all
  have codes: "map t_code trades = map fst ?trig"
    unfolding trades by (auto simp: sell_trade_def Let_def)
  have cash'': "cash' = cash + (\<Sum>t \<leftarrow> trades. t_amount t - t_commission t)"
    unfolding cash' trades
    using sum_net_proceeds [of eng pd d ?trig date_str
            "\<lambda>c pos. StopLoss (drawdown pos (the (close_on pd c d)))"]
    by (simp add: case_prod_unfold)
  have each: "\<exists>pos today_close.
          (t_code t, pos) \<in> set ps \<and> close_on pd (t_code t) d = Some today_close
          \<and> t_action t = SELL \<and> t_date t = date_str
          \<and> t_price t = today_close \<and> t_shares t = shares pos
          \<and> t_amount t = today_close * real_of_int (shares pos)
          \<and> t_commission t = t_amount t * commission_rate eng
          \<and> t_pnl t = (t_amount t - t_commission t)
                       - (avg_price pos * real_of_int (shares pos)
                          + avg_price pos * real_of_int (shares pos) * commission_rate eng)
          \<and> t_reason t = StopLoss ((max_price pos - t_price t) / max_price pos)
          \<and> (max_price pos - t_price t) / max_price pos \<ge> stop_loss_pct eng"
    if "t \<in> set trades" for t
  proof -
    from that obtain c pos where m: "(c, pos) \<in> set ps"
      and tr: "stop_loss_triggered eng pd d (c, pos)"
      and t: "t = sell_trade eng date_str d c pos (the (close_on pd c d))
                    (StopLoss (drawdown pos (the (close_on pd c d))))"
      unfolding trades by auto
    from tr obtain p where p: "close_on pd c d = Some p"
      and dd: "drawdown pos p \<ge> stop_loss_pct eng"
      by (auto simp: stop_loss_triggered_def split: option.splits)
    show ?thesis
      using m p dd unfolding t
      by (intro exI [of _ pos] exI [of _ p]) (simp add: sell_trade_def Let_def drawdown_def)
  qed
  from ps' codes cash'' each show ?thesis by blast
qed


text \<open>
  Two positions on 2023-01-06: A closes at 9.5 under a high-water price of 10 and is sold;
  B closes at 19.9 under 20 and stays.
\<close>
theorem stop_loss_witness:
  "distinct (map fst
      [(''A'', \<lparr>shares = 1000, avg_price = 10, max_price = 10, buy_date = 738522, name = ''a''\<rparr>),
       (''B'', \<lparr>shares = 100, avg_price = 20, max_price = 20, buy_date = 738522, name = ''b''\<rparr>)])
   \<and> check_stop_loss
        \<lparr>initial_capital = 1000000, stop_loss_pct = 0.04, commission_rate = 0.0003,
         rebalance_weekly = False, rebalance_day = 0\<rparr>
        [(''A'', \<lparr>shares = 1000, avg_price = 10, max_price = 10, buy_date = 738522, name = ''a''\<rparr>),
         (''B'', \<lparr>shares = 100, avg_price = 20, max_price = 20, buy_date = 738522, name = ''b''\<rparr>)]
        [(''A'', Some [(738526, 9.5)]), (''B'', Some [(738526, 19.9)])] 1000 738526 ''2023-01-06''
      = ([(''B'', \<lparr>shares = 100, avg_price = 20, max_price = 20, buy_date = 738522, name = ''b''\<rparr>)],
         10497.15,
         [\<lparr>t_date = ''2023-01-06'', t_code = ''A'', t_name = None, t_action = SELL,
           t_reason = StopLoss 0.05, t_price = 9.5, t_shares = 1000, t_amount = 9500,
           t_commission = 2.85, t_pnl = - 505.85, t_pnl_pct = - 505.85 / 10003,
           t_holding_days = 4\<rparr>])
   \<and> (10 - 9.5) / 10 \<ge> (0.04 :: real)"
proof -
  let ?ps = "[(''A'', \<lparr>shares = 1000, avg_price = 10, max_price = 10, buy_date = 738522, name = ''a''\<rparr>),
       (''B'', \<lparr>shares = 100, avg_price = 20, max_price = 20, buy_date = 738522, name = ''b''\<rparr>)]"
  have h1: "distinct (map fst ?ps)" by simp
  have h2: "\<forall>(c, pos) \<in> set ?ps. max_price pos \<noteq> 0" by simp
  have h3: "check_stop_loss
        \<lparr>initial_capital = 1000000, stop_loss_pct = 0.04, commission_rate = 0.0003,
         rebalance_weekly = False, rebalance_day = 0\<rparr> ?ps
        [(''A'', Some [(738526, 9.5)]), (''B'', Some [(738526, 19.9)])] 1000 738526 ''2023-01-06''
      = ([(''B'', \<lparr>shares = 100, avg_price = 20, max_price = 20, buy_date = 738522, name = ''b''\<rparr>)],
         10497.15,
         [\<lparr>t_date = ''2023-01-06'', t_code = ''A'', t_name = None, t_action = SELL,
           t_reason = StopLoss 0.05, t_price = 9.5, t_shares = 1000, t_amount = 9500,
           t_commission = 2.85, t_pnl = - 505.85, t_pnl_pct = - 505.85 / 10003,
           t_holding_days = 4\<rparr>])"
    by (simp add: engine_defs Let_def)
  from stop_loss_liquidates_exactly_the_triggered [OF h1 h2 h3] h1 h3
  show ?thesis by simp
qed

section \<open>Signal execution\<close>

lemma entry_shares_nonneg:
  assumes "0 \<le> cash" and "0 < p"
  shows "0 \<le> entry_shares n cash p"
proof -
  have "0 \<le> min (cash / real n) (0.2 * cash) / (p * 100)"
    using assms by (simp add: min_def)
  then show ?thesis by (simp add: entry_shares_def)
qed

lemma buy_loop_refines:
  assumes "0 < n" and "0 \<le> cash"
    and "\<forall>s \<in> set sigs. \<forall>p. close_on pd (s_code s) d = Some p \<longrightarrow> 0 < p"
  shows "buy_loop eng pd d ds n sigs ps cash trades =
           Inr (foldl (signal_entry eng pd d ds n) (ps, cash, trades) sigs)"
  using assms
proof (induction sigs arbitrary: ps cash trades)
  case Nil
  then show ?case by simp
next
  case (Cons s sigs)
  have rest: "\<forall>s \<in> set sigs. \<forall>p. close_on pd (s_code s) d = Some p \<longrightarrow> 0 < p"
    using Cons.prems(3) by simp
  note IH = Cons.IH [OF Cons.prems(1) _ rest]
  show ?case
  proof (cases "map_of ps (s_code s) = None")
    case False
    then have held: "s_code s \<in> fst ` set ps"
      by (simp add: map_of_eq_None_iff)
    with False show ?thesis
      using IH [OF Cons.prems(2)] by (simp add: signal_entry_def)
  next
    case True
    then have nheld: "s_code s \<notin> fst ` set ps"
      by (simp add: map_of_eq_None_iff)
    show ?thesis
    proof (cases "close_on pd (s_code s) d")
      case None
      with True nheld show ?thesis
        using IH [OF Cons.prems(2)] by (simp add: signal_entry_def)
    next
      case (Some p)
      with Cons.prems(3) have p: "0 < p" by simp
      let ?sh = "entry_shares n cash p"
      have sh0: "0 \<le> ?sh" using entry_shares_nonneg [OF Cons.prems(2) p] .
      have ls: "lot_shares (min (cash / real n) (cash * 0.2)) p = Inr ?sh"
        using p by (simp add: lot_shares_def entry_shares_def mult.commute)
      show ?thesis
      proof (cases "?sh = 0 \<or> p * real_of_int ?sh + p * real_of_int ?sh * commission_rate eng > cash")
        case True
        then show ?thesis
          using \<open>map_of ps (s_code s) = None\<close> nheld Some ls sh0 Cons.prems(1)
                IH [OF Cons.prems(2)]
          by (auto simp: signal_entry_def Let_def)
      next
        case False
        then have pos: "0 < ?sh" and fund: "p * real_of_int ?sh + p * real_of_int ?sh * commission_rate eng \<le> cash"
          using sh0 by auto
        have c': "0 \<le> cash - (p * real_of_int ?sh + p * real_of_int ?sh * commission_rate eng)"
          using fund by simp
        show ?thesis
          using \<open>map_of ps (s_code s) = None\<close> nheld Some ls pos fund Cons.prems(1) IH [OF c']
          by (simp add: signal_entry_def Let_def buy_trade_def)
      qed
    qed
  qed
qed

text \<open>
  C3, as the code has it: with non-negative cash and positive closes, \<open>_execute_buy_signals\<close>
  is the left-to-right application of \<open>signal_entry\<close> to the signals of the day, where the
  \<open>n\<close> that divides the cash is the number of all signals in the list, held ones and
  ones without a price bar included.  A held instrument is passed over; a candidate gets
  \<open>min (cash / n) (0.2 * cash)\<close> of the cash at hand, rounded down to lots of 100 shares;
  when that is 0 shares, or the cost with commission exceeds the cash, ledger, cash and
  trades stay as they are.
\<close>
theorem signal_execution_allocates_by_signal_count:
  assumes "0 \<le> cash"
    and "\<forall>s \<in> set buy_signals. \<forall>p. close_on pd (s_code s) d = Some p \<longrightarrow> 0 < p"
  shows "execute_buy_signals eng buy_signals ps pd cash d date_str =
           Inr (foldl (signal_entry eng pd d date_str (length buy_signals)) (ps, cash, []) buy_signals)"
proof (cases buy_signals)
  case Nil
  then show ?thesis by (simp add: execute_buy_signals_def)
next
  case (Cons s rest)
  then have "0 < length buy_signals" by simp
  from buy_loop_refines [OF this assms]
  show ?thesis by (simp add: execute_buy_signals_def)
qed


text \<open>
  Six signals, A already held, B and C with a price bar: B is entered with 60000 / 6, and
  C (close 500) rounds to 0 shares and is passed over.
\<close>
theorem signal_execution_witness:
  "(0::real) \<le> 60000
   \<and> foldl (signal_entry
              \<lparr>initial_capital = 1000000, stop_loss_pct = 0.04, commission_rate = 0.0003,
               rebalance_weekly = False, rebalance_day = 0\<rparr>
              [(''A'', Some [(738523, 2)]), (''B'', Some [(738523, 1)]), (''C'', Some [(738523, 500)])]
              738523 ''2023-01-03'' 6)
        ([(''A'', \<lparr>shares = 100, avg_price = 2, max_price = 2, buy_date = 738522, name = ''a''\<rparr>)],
         60000, [])
        [\<lparr>s_code = ''A'', s_name = Some ''a''\<rparr>, \<lparr>s_code = ''B'', s_name = None\<rparr>,
         \<lparr>s_code = ''C'', s_name = None\<rparr>, \<lparr>s_code = ''D'', s_name = None\<rparr>,
         \<lparr>s_code = ''E'', s_name = None\<rparr>, \<lparr>s_code = ''F'', s_name = None\<rparr>]
      = ([(''A'', \<lparr>shares = 100, avg_price = 2, max_price = 2, buy_date = 738522, name = ''a''\<rparr>),
          (''B'', \<lparr>shares = 10000, avg_price = 1, max_price = 1, buy_date = 738523,
                   name = ''unknown''\<rparr>)],
         49997,
         [\<lparr>t_date = ''2023-01-03'', t_code = ''B'', t_name = Some ''unknown'', t_action = BUY,
           t_reason = SignalBuy, t_price = 1, t_shares = 10000, t_amount = 10000,
           t_commission = 3, t_pnl = 0, t_pnl_pct = 0, t_holding_days = 0\<rparr>])"
proof -
  let ?eng = "\<lparr>initial_capital = 1000000, stop_loss_pct = 0.04, commission_rate = 0.0003,
               rebalance_weekly = False, rebalance_day = 0\<rparr>"
  let ?sigs = "[\<lparr>s_code = ''A'', s_name = Some ''a''\<rparr>, \<lparr>s_code = ''B'', s_name = None\<rparr>,
         \<lparr>s_code = ''C'', s_name = None\<rparr>, \<lparr>s_code = ''D'', s_name = None\<rparr>,
         \<lparr>s_code = ''E'', s_name = None\<rparr>, \<lparr>s_code = ''F'', s_name = None\<rparr>]"
  let ?pd = "[(''A'', Some [(738523, 2::real)]), (''B'', Some [(738523, 1)]), (''C'', Some [(738523, 500)])]"
  let ?ps = "[(''A'', \<lparr>shares = 100, avg_price = 2, max_price = 2, buy_date = 738522, name = ''a''\<rparr>)]"
  have h1: "(0::real) \<le> 60000" by simp
  have h2: "\<forall>s \<in> set ?sigs. \<forall>p. close_on ?pd (s_code s) 738523 = Some p \<longrightarrow> 0 < p"
    by (simp add: close_on_def)
  have run: "execute_buy_signals ?eng ?sigs ?ps ?pd 60000 738523 ''2023-01-03''
      = Inr ([(''A'', \<lparr>shares = 100, avg_price = 2, max_price = 2, buy_date = 738522, name = ''a''\<rparr>),
          (''B'', \<lparr>shares = 10000, avg_price = 1, max_price = 1, buy_date = 738523,
                   name = ''unknown''\<rparr>)],
         49997,
         [\<lparr>t_date = ''2023-01-03'', t_code = ''B'', t_name = Some ''unknown'', t_action = BUY,
           t_reason = SignalBuy, t_price = 1, t_shares = 10000, t_amount = 10000,
           t_commission = 3, t_pnl = 0, t_pnl_pct = 0, t_holding_days = 0\<rparr>])"
    by (simp add: engine_defs Let_def)
  have len: "length ?sigs = 6" by simp
  have "execute_buy_signals ?eng ?sigs ?ps ?pd 60000 738523 ''2023-01-03''
          = Inr (foldl (signal_entry ?eng ?pd 738523 ''2023-01-03'' (length ?sigs)) (?ps, 60000, []) ?sigs)"
    using signal_execution_allocates_by_signal_count [OF h1 h2, of ?eng ?ps "''2023-01-03''"] .
  then have eq: "foldl (signal_entry ?eng ?pd 738523 ''2023-01-03'' 6) (?ps, 60000, []) ?sigs
      = ([(''A'', \<lparr>shares = 100, avg_price = 2, max_price = 2, buy_date = 738522, name = ''a''\<rparr>),
          (''B'', \<lparr>shares = 10000, avg_price = 1, max_price = 1, buy_date = 738523,
                   name = ''unknown''\<rparr>)],
         49997,
         [\<lparr>t_date = ''2023-01-03'', t_code = ''B'', t_name = Some ''unknown'', t_action = BUY,
           t_reason = SignalBuy, t_price = 1, t_shares = 10000, t_amount = 10000,
           t_commission = 3, t_pnl = 0, t_pnl_pct = 0, t_holding_days = 0\<rparr>])"
    unfolding len run by (simp only: sum.inject)
  show ?thesis
    by (intro conjI) (rule h1, rule eq)
qed

text \<open>
  C3 as stated fails: of six signals one is held, which leaves five candidates, and the
  entry of B has 10000 shares (cash over six), not the 12000 that cash over five gives.
\<close>
theorem allocation_divides_by_all_signals:
  "(case execute_buy_signals
        \<lparr>initial_capital = 1000000, stop_loss_pct = 0.04, commission_rate = 0.0003,
         rebalance_weekly = False, rebalance_day = 0\<rparr>
        [\<lparr>s_code = ''A'', s_name = Some ''a''\<rparr>, \<lparr>s_code = ''B'', s_name = None\<rparr>,
         \<lparr>s_code = ''C'', s_name = None\<rparr>, \<lparr>s_code = ''D'', s_name = None\<rparr>,
         \<lparr>s_code = ''E'', s_name = None\<rparr>, \<lparr>s_code = ''F'', s_name = None\<rparr>]
        [(''A'', \<lparr>shares = 100, avg_price = 2, max_price = 2, buy_date = 738522, name = ''a''\<rparr>)]
        [(''A'', Some [(738523, 2)]), (''B'', Some [(738523, 1)]), (''C'', Some [(738523, 500)])]
        60000 738523 ''2023-01-03'' of
      Inl e \<Rightarrow> None
    | Inr (ps', cash', trades) \<Rightarrow> Some (map (\<lambda>t. (t_code t, t_shares t)) trades))
     = Some [(''B'', 10000)]
   \<and> length (filter (\<lambda>s. s_code s \<noteq> ''A'')
        [\<lparr>s_code = ''A'', s_name = Some ''a''\<rparr>, \<lparr>s_code = ''B'', s_name = None\<rparr>,
         \<lparr>s_code = ''C'', s_name = None\<rparr>, \<lparr>s_code = ''D'', s_name = None\<rparr>,
         \<lparr>s_code = ''E'', s_name = None\<rparr>, \<lparr>s_code = ''F'', s_name = None\<rparr>]) = 5
   \<and> \<lfloor>min (60000 / 5) (0.2 * 60000) / (1 * 100 :: real)\<rfloor> * 100 = 12000
   \<and> \<lfloor>min (60000 / 6) (0.2 * 60000) / (1 * 100 :: real)\<rfloor> * 100 = 10000"
  by (simp add: engine_defs Let_def)


section \<open>The metrics calculator on the histories of a run\<close>

lemma day_loop_length:
  "day_loop eng sigs pd dates ps cash h t = Inr (h', t') \<Longrightarrow> length h' = length h + length dates"
proof (induction dates arbitrary: ps cash h t)
  case Nil
  then show ?case by simp
next
  case (Cons d dates)
  from Cons.prems obtain ps1 cash1 rec tr where
    "day_loop eng sigs pd dates ps1 cash1 (h @ [rec]) (t @ tr) = Inr (h', t')"
    by (auto split: sum.splits prod.splits)
  from Cons.IH [OF this] show ?case by simp
qed

lemma simulate_shape:
  "simulate eng sigs pd sd ed = Inr (all_dates, h, t) \<Longrightarrow> all_dates \<noteq> [] \<and> length h = length all_dates"
  by (auto simp: simulate_def split: if_splits sum.splits prod.splits dest: day_loop_length)

text \<open>
  C8: on the histories that the loop of a run hands over, \<open>_calculate_results\<close> raises
  nothing and \<open>run_backtest\<close> returns its results.  The annual return is 0 when no day
  has elapsed between the first and the last date; the Sharpe ratio is 0 when the standard
  deviation of the daily returns is undefined or 0; on a single-day horizon both are 0; and
  without a SELL trade the win rate, the average win and loss percentages and the average
  holding days are all 0 (with no trade at all, so is the trade count).
\<close>
theorem metrics_never_raise:
  assumes "simulate eng sigs pd start_date end_date = Inr (all_dates, h, t)"
  shows "\<exists>r. calculate_results eng all_dates h t = Inr (Some r)
      \<and> run_backtest eng sigs pd start_date end_date = Inr (Some r, h, t)
      \<and> (last all_dates - hd all_dates \<le> 0 \<longrightarrow> annual_return_pct r = 0)
      \<and> (length all_dates = 1 \<longrightarrow> annual_return_pct r = 0 \<and> sharpe_ratio r = 0)
      \<and> (series_std (pct_change (map d_portfolio_value h)) = None
           \<or> series_std (pct_change (map d_portfolio_value h)) = Some 0 \<longrightarrow> sharpe_ratio r = 0)
      \<and> (filter (\<lambda>x. t_action x = SELL) t = [] \<longrightarrow>
           win_rate_pct r = 0 \<and> avg_win_pct r = 0 \<and> avg_loss_pct r = 0 \<and> avg_holding_days r = 0)
      \<and> (t = [] \<longrightarrow> total_trades r = 0)"
proof -
  from simulate_shape [OF assms] have ne: "all_dates \<noteq> []" and len: "length h = length all_dates"
    by simp_all
  then have hne: "h \<noteq> []" by auto
  from ne hne obtain r where r: "calculate_results eng all_dates h t = Inr (Some r)"
    by (simp add: calculate_results_def Let_def)
  have run: "run_backtest eng sigs pd start_date end_date = Inr (Some r, h, t)"
    by (simp add: run_backtest_def assms r)
  have annual: "annual_return_pct r = 0" if "last all_dates - hd all_dates \<le> 0"
    using r ne hne that by (auto simp: calculate_results_def Let_def)
  have sharpe: "sharpe_ratio r = 0"
    if "series_std (pct_change (map d_portfolio_value h)) = None
        \<or> series_std (pct_change (map d_portfolio_value h)) = Some 0"
    using r ne hne that by (auto simp: calculate_results_def Let_def split: option.splits)
  have single: "annual_return_pct r = 0 \<and> sharpe_ratio r = 0" if "length all_dates = 1"
  proof -
    from that obtain d where d: "all_dates = [d]" by (cases all_dates) auto
    from that len obtain x where x: "h = [x]" by (cases h) auto
    have "series_std (pct_change (map d_portfolio_value h)) = None"
      by (simp add: x pct_change_def series_std_def)
    with sharpe annual d show ?thesis by simp
  qed
  have nosell: "win_rate_pct r = 0 \<and> avg_win_pct r = 0 \<and> avg_loss_pct r = 0 \<and> avg_holding_days r = 0"
    if "filter (\<lambda>x. t_action x = SELL) t = []"
    using r ne hne that by (auto simp: calculate_results_def Let_def)
  have notrade: "total_trades r = 0" if "t = []"
    using r ne hne that by (auto simp: calculate_results_def Let_def)
  from r run annual single sharpe nosell notrade show ?thesis by blast
qed

text \<open>
  A single date with no signalled instrument and no prices: one record, no trade.
\<close>
theorem metrics_witness:
  "simulate \<lparr>initial_capital = 1000000, stop_loss_pct = 0.04, commission_rate = 0.0003,
             rebalance_weekly = False, rebalance_day = 0\<rparr>
      [(''2023-01-02'', [])] [] None None
     = Inr ([738522],
            [\<lparr>d_date = ''2023-01-02'', d_cash = 1000000, d_positions_count = 0,
              d_portfolio_value = 1000000, d_return = 0\<rparr>], [])
   \<and> (\<exists>r. run_backtest \<lparr>initial_capital = 1000000, stop_loss_pct = 0.04, commission_rate = 0.0003,
                         rebalance_weekly = False, rebalance_day = 0\<rparr>
              [(''2023-01-02'', [])] [] None None
            = Inr (Some r,
                   [\<lparr>d_date = ''2023-01-02'', d_cash = 1000000, d_positions_count = 0,
                     d_portfolio_value = 1000000, d_return = 0\<rparr>], [])
          \<and> annual_return_pct r = 0 \<and> sharpe_ratio r = 0 \<and> win_rate_pct r = 0
          \<and> avg_win_pct r = 0 \<and> avg_loss_pct r = 0 \<and> avg_holding_days r = 0
          \<and> total_trades r = 0)"
proof -
  have h: "simulate \<lparr>initial_capital = 1000000, stop_loss_pct = 0.04, commission_rate = 0.0003,
             rebalance_weekly = False, rebalance_day = 0\<rparr>
      [(''2023-01-02'', [])] [] None None
     = Inr ([738522],
            [\<lparr>d_date = ''2023-01-02'', d_cash = 1000000, d_positions_count = 0,
              d_portfolio_value = 1000000, d_return = 0\<rparr>], [])"
    by (simp add: calendar_defs engine_defs Let_def)
  from metrics_never_raise [OF h] h show ?thesis by auto
qed


section \<open>Cash accounting\<close>

lemma balances_append:
  "set (balances c (ts @ us)) = set (balances c ts) \<union> set (balances (c + (\<Sum>t \<leftarrow> ts. settlement t)) us)"
proof (induction ts arbitrary: c)
  case Nil
  then show ?case by (cases us) auto
next
  case (Cons t ts)
  then show ?case by (simp add: add.assoc)
qed

lemma balances_credits:
  "\<forall>t \<in> set ts. 0 \<le> settlement t \<Longrightarrow> b \<in> set (balances c ts) \<Longrightarrow> c \<le> b"
proof (induction ts arbitrary: c)
  case Nil
  then show ?case by simp
next
  case (Cons t ts)
  from Cons.prems(2) consider "b = c" | "b \<in> set (balances (c + settlement t) ts)" by auto
  then show ?case
  proof cases
    case 1
    then show ?thesis by simp
  next
    case 2
    from Cons.IH [OF _ 2] Cons.prems(1) have "c + settlement t \<le> b" by simp
    with Cons.prems(1) show ?thesis by simp
  qed
qed

lemma close_on_nonneg:
  assumes "prices_nonneg pd" and "close_on pd c d = Some p"
  shows "0 \<le> p"
proof -
  from assms(2) obtain f where f: "map_of pd c = Some (Some f)" and p: "map_of f d = Some p"
    by (auto simp: close_on_def split: option.splits)
  from f have "(c, Some f) \<in> set pd" by (rule map_of_SomeD)
  moreover from p have "(d, p) \<in> set f" by (rule map_of_SomeD)
  ultimately have "(c, Some f) \<in> set pd" and m: "(d, p) \<in> set f" by simp_all
  with assms(1) have "\<forall>(d, p) \<in> set f. 0 \<le> p"
    unfolding prices_nonneg_def by force
  with m show ?thesis by force
qed

lemma net_proceeds_nonneg:
  assumes "commission_rate eng \<le> 1" and "0 \<le> p" and "0 \<le> shares pos"
  shows "0 \<le> net_proceeds eng pos p"
proof -
  have "net_proceeds eng pos p = (p * real_of_int (shares pos)) * (1 - commission_rate eng)"
    by (simp add: net_proceeds_def Let_def algebra_simps)
  moreover have "0 \<le> p * real_of_int (shares pos)" using assms by simp
  moreover have "0 \<le> 1 - commission_rate eng" using assms by simp
  ultimately show ?thesis by simp
qed

lemma settlement_sell_trade [simp]:
  "settlement (sell_trade eng ds d c pos p r) = net_proceeds eng pos p"
  by (simp add: settlement_def sell_trade_def net_proceeds_def Let_def)

lemma sales_settle:
  "(\<Sum>t \<leftarrow> map (\<lambda>(c, pos). sell_trade eng ds d c pos (the (close_on pd c d)) (r c pos)) qs.
        settlement t) =
   (\<Sum>(c, pos) \<leftarrow> qs. net_proceeds eng pos (the (close_on pd c d)))"
  by (induction qs) auto

lemma sales_credit:
  assumes "commission_rate eng \<le> 1" and "prices_nonneg pd" and "ledger_ok ps"
    and q: "\<forall>(c, pos) \<in> set qs. (c, pos) \<in> set ps \<and> close_on pd c d \<noteq> None"
    and t: "t \<in> set (map (\<lambda>(c, pos). sell_trade eng ds d c pos (the (close_on pd c d)) (r c pos)) qs)"
  shows "0 \<le> settlement t"
proof -
  from t obtain c pos where m: "(c, pos) \<in> set qs"
    and t': "t = sell_trade eng ds d c pos (the (close_on pd c d)) (r c pos)" by auto
  from q m obtain p where p: "close_on pd c d = Some p" and mp: "(c, pos) \<in> set ps" by auto
  from mp assms(3) have "0 \<le> shares pos" by (fastforce simp: ledger_ok_def)
  with close_on_nonneg [OF assms(2) p] assms(1) show ?thesis
    unfolding t' by (simp add: p net_proceeds_nonneg)
qed

lemma settles_Nil [simp]: "settles c [] c"
  by (simp add: settles_def)

lemma last_balance: "c + (\<Sum>t \<leftarrow> ts. settlement t) \<in> set (balances c ts)"
proof (induction ts arbitrary: c)
  case Nil
  then show ?case by simp
next
  case (Cons t ts)
  from Cons.IH [of "c + settlement t"] show ?case by (simp add: add.assoc)
qed

lemma settles_last:
  assumes "settles c ts c'" and "0 \<le> c"
  shows "0 \<le> c'"
proof -
  from assms have e: "c' = c + (\<Sum>t \<leftarrow> ts. settlement t)"
    and b: "\<forall>b \<in> set (balances c ts). 0 \<le> b"
    unfolding settles_def by blast+
  from b last_balance [of c ts] show ?thesis unfolding e by (rule bspec)
qed

lemma settles_append:
  assumes "settles c ts c'" and "settles c' us c''"
  shows "settles c (ts @ us) c''"
proof -
  from assms(1) have e1: "c' = c + (\<Sum>t \<leftarrow> ts. settlement t)"
    unfolding settles_def by (rule conjunct1)
  from assms(2) have e2: "c'' = c' + (\<Sum>t \<leftarrow> us. settlement t)"
    unfolding settles_def by (rule conjunct1)
  have e: "c'' = c + (\<Sum>t \<leftarrow> ts @ us. settlement t)"
    unfolding e2 e1 by simp
  have "\<forall>b \<in> set (balances c (ts @ us)). 0 \<le> b" if c: "0 \<le> c"
  proof -
    from settles_last [OF assms(1) c] have c': "0 \<le> c'" .
    from assms(1) c have b1: "\<forall>b \<in> set (balances c ts). 0 \<le> b"
      unfolding settles_def by blast
    from assms(2) c' have b2: "\<forall>b \<in> set (balances c' us). 0 \<le> b"
      unfolding settles_def by blast
    from b1 b2 show ?thesis
      unfolding balances_append e1 by blast
  qed
  with e show ?thesis unfolding settles_def by blast
qed

lemma settles_credits:
  assumes "\<forall>t \<in> set ts. 0 \<le> settlement t"
  shows "settles c ts (c + (\<Sum>t \<leftarrow> ts. settlement t))"
proof -
  have "0 \<le> b" if "0 \<le> c" and "b \<in> set (balances c ts)" for b
    using balances_credits [OF assms that(2)] that(1) by simp
  then show ?thesis by (simp add: settles_def)
qed


lemma settles_buy:
  assumes "p * real_of_int sh + p * real_of_int sh * r \<le> cash"
  shows "settles cash [buy_trade ds s p sh (p * real_of_int sh * r)]
           (cash - (p * real_of_int sh + p * real_of_int sh * r))"
  using assms unfolding settles_def
  by (simp add: settlement_def buy_trade_def)

lemma rebalance_sell_loop_eq:
  "rebalance_sell_loop eng pd d ds ps cash tr =
     (cash + (\<Sum>(c, pos) \<leftarrow> priced_today pd d ps. net_proceeds eng pos (the (close_on pd c d))),
      tr @ map (\<lambda>(c, pos). sell_trade eng ds d c pos (the (close_on pd c d)) WeeklyRebalance)
             (priced_today pd d ps))"
proof (induction ps arbitrary: cash tr)
  case Nil
  then show ?case by (simp add: priced_today_def)
next
  case (Cons cp ps)
  obtain c pos where cp: "cp = (c, pos)" by (cases cp)
  show ?case
    unfolding cp
    by (cases "close_on pd c d") (simp_all add: Cons.IH priced_today_def)
qed

lemma ledger_ok_subset: "ledger_ok ps \<Longrightarrow> set qs \<subseteq> set ps \<Longrightarrow> ledger_ok qs"
  unfolding ledger_ok_def by blast

lemma ledger_ok_update: "ledger_ok ps \<Longrightarrow> ledger_ok (update_positions_high ps pd d)"
  unfolding ledger_ok_def update_positions_high_def
  by (auto split: option.splits if_splits)

lemma sales_settle_credit:
  assumes "commission_rate eng \<le> 1" and "prices_nonneg pd" and "ledger_ok ps"
    and "\<forall>(c, pos) \<in> set qs. (c, pos) \<in> set ps \<and> close_on pd c d \<noteq> None"
  shows "settles cash
           (map (\<lambda>(c, pos). sell_trade eng ds d c pos (the (close_on pd c d)) (r c pos)) qs)
           (cash + (\<Sum>(c, pos) \<leftarrow> qs. net_proceeds eng pos (the (close_on pd c d))))"
proof -
  let ?ts = "map (\<lambda>(c, pos). sell_trade eng ds d c pos (the (close_on pd c d)) (r c pos)) qs"
  have "\<forall>t \<in> set ?ts. 0 \<le> settlement t"
    using sales_credit [OF assms, of _ ds r] by blast
  from settles_credits [OF this, of cash] show ?thesis
    unfolding sales_settle .
qed

lemma check_stop_loss_settles:
  assumes "check_stop_loss eng ps pd cash d ds = (ps', cash', trades)"
    and "commission_rate eng \<le> 1" and "prices_nonneg pd" and "ledger_ok ps"
  shows "settles cash trades cash' \<and> ledger_ok ps'"
proof -
  let ?qs = "filter (stop_loss_triggered eng pd d) ps"
  from assms(1) have ps': "ps' = filter (\<lambda>(c, pos). c \<notin> set (map fst ?qs)) ps"
    and cash': "cash' = cash + (\<Sum>(c, pos) \<leftarrow> ?qs. net_proceeds eng pos (the (close_on pd c d)))"
    and trades: "trades = map (\<lambda>(c, pos). sell_trade eng ds d c pos (the (close_on pd c d))
                               (StopLoss (drawdown pos (the (close_on pd c d))))) ?qs"
    unfolding check_stop_loss_def stop_loss_loop_eq foldl_delete by simp_all
  have q: "\<forall>(c, pos) \<in> set ?qs. (c, pos) \<in> set ps \<and> close_on pd c d \<noteq> None"
    by (auto simp: stop_loss_triggered_def split: option.splits)
  have "settles cash trades cash'"
    unfolding trades cash'
    using sales_settle_credit [OF assms(2,3,4) q,
            of cash ds "\<lambda>c pos. StopLoss (drawdown pos (the (close_on pd c d)))"] .
  moreover have "ledger_ok ps'"
    using assms(4) unfolding ps' by (rule ledger_ok_subset) auto
  ultimately show ?thesis ..
qed

lemma buy_loop_settles:
  assumes "buy_loop eng pd d ds n sigs ps cash tr = Inr (ps', cash', tr')" and "ledger_ok ps"
  shows "\<exists>new. tr' = tr @ new \<and> settles cash new cash' \<and> ledger_ok ps'"
  using assms
proof (induction sigs arbitrary: ps cash tr)
  case Nil
  then show ?case by simp
next
  case (Cons s sigs)
  from Cons.prems(1) consider
    (skip) "buy_loop eng pd d ds n sigs ps cash tr = Inr (ps', cash', tr')"
  | (buy) p sh where "\<not> sh \<le> 0"
      "\<not> cash < p * real_of_int sh + p * real_of_int sh * commission_rate eng"
      "buy_loop eng pd d ds n sigs
         (ps @ [(s_code s, \<lparr>shares = sh, avg_price = p, max_price = p, buy_date = d,
                            name = signal_name s\<rparr>)])
         (cash - (p * real_of_int sh + p * real_of_int sh * commission_rate eng))
         (tr @ [buy_trade ds s p sh (p * real_of_int sh * commission_rate eng)])
       = Inr (ps', cash', tr')"
    by (auto simp: Let_def split: if_splits option.splits sum.splits)
  then show ?case
  proof cases
    case skip
    from Cons.IH [OF skip Cons.prems(2)] show ?thesis .
  next
    case buy
    have ok: "ledger_ok (ps @ [(s_code s, \<lparr>shares = sh, avg_price = p, max_price = p,
                                         buy_date = d, name = signal_name s\<rparr>)])"
      using Cons.prems(2) buy(1) by (simp add: ledger_ok_def)
    from buy(2) have fund: "p * real_of_int sh + p * real_of_int sh * commission_rate eng \<le> cash"
      by simp
    from Cons.IH [OF buy(3) ok] obtain new where
      tr': "tr' = (tr @ [buy_trade ds s p sh (p * real_of_int sh * commission_rate eng)]) @ new"
      and st: "settles (cash - (p * real_of_int sh + p * real_of_int sh * commission_rate eng)) new cash'"
      and ok': "ledger_ok ps'"
      by blast
    have "settles cash [buy_trade ds s p sh (p * real_of_int sh * commission_rate eng)]
            (cash - (p * real_of_int sh + p * real_of_int sh * commission_rate eng))"
      using settles_buy [OF fund] .
    from settles_append [OF this st]
    have "settles cash (buy_trade ds s p sh (p * real_of_int sh * commission_rate eng) # new) cash'"
      by simp
    with tr' ok' show ?thesis by auto
  qed
qed

lemma execute_buy_signals_settles:
  assumes "execute_buy_signals eng sigs ps pd cash d ds = Inr (ps', cash', trades)"
    and "ledger_ok ps"
  shows "settles cash trades cash' \<and> ledger_ok ps'"
  using buy_loop_settles [OF assms(1) [unfolded execute_buy_signals_def] assms(2)] by simp

lemma execute_weekly_rebalance_settles:
  assumes "execute_weekly_rebalance eng ps pd cash d ds today = Inr (ps', cash', trades)"
    and "commission_rate eng \<le> 1" and "prices_nonneg pd" and "ledger_ok ps"
  shows "settles cash trades cash' \<and> ledger_ok ps'"
proof (cases "ps = []")
  case True
  with assms(1) show ?thesis by (auto simp: execute_weekly_rebalance_def ledger_ok_def)
next
  case False
  let ?qs = "priced_today pd d ps"
  let ?sales = "map (\<lambda>(c, pos). sell_trade eng ds d c pos (the (close_on pd c d)) WeeklyRebalance) ?qs"
  let ?cash1 = "cash + (\<Sum>(c, pos) \<leftarrow> ?qs. net_proceeds eng pos (the (close_on pd c d)))"
  have q: "\<forall>(c, pos) \<in> set ?qs. (c, pos) \<in> set ps \<and> close_on pd c d \<noteq> None"
    by (auto simp: priced_today_def)
  have s1: "settles cash ?sales ?cash1"
    using sales_settle_credit [OF assms(2,3,4) q, of cash ds "\<lambda>c pos. WeeklyRebalance"] .
  have empty: "ledger_ok []" by (simp add: ledger_ok_def)
  from assms(1) False consider
    (nosig) "ps' = []" "cash' = ?cash1" "trades = ?sales"
  | (sig) new where "execute_buy_signals eng today [] pd ?cash1 d ds = Inr (ps', cash', new)"
      "trades = ?sales @ new"
    unfolding execute_weekly_rebalance_def rebalance_sell_loop_eq
    by (auto split: if_splits sum.splits)
  then show ?thesis
  proof cases
    case nosig
    with s1 empty show ?thesis by simp
  next
    case sig
    from execute_buy_signals_settles [OF sig(1) empty]
    have "settles ?cash1 new cash'" and ok: "ledger_ok ps'" by simp_all
    from settles_append [OF s1 this(1)] ok show ?thesis
      unfolding sig(2) by simp
  qed
qed


lemma day_step_settles:
  assumes "day_step eng sigs pd d ps cash = Inr (ps', cash', rec, trades)"
    and "commission_rate eng \<le> 1" and "prices_nonneg pd" and "ledger_ok ps"
  shows "settles cash trades cash' \<and> ledger_ok ps' \<and> d_cash rec = cash'"
proof -
  let ?ds = "strftime d"
  let ?today = "case map_of sigs ?ds of None \<Rightarrow> [] | Some l \<Rightarrow> l"
  obtain ps2 c2 t2 where
    a: "check_stop_loss eng (update_positions_high ps pd d) pd cash d ?ds = (ps2, c2, t2)"
    by (cases "check_stop_loss eng (update_positions_high ps pd d) pd cash d ?ds") auto
  from assms(1) a obtain ps3 c3 t3 where
    b: "(case map_of sigs ?ds of
           None \<Rightarrow> Inr (ps2, c2, [])
         | Some bs \<Rightarrow> execute_buy_signals eng bs ps2 pd c2 d ?ds) = Inr (ps3, c3, t3)"
    unfolding day_step_def Let_def
    by (auto split: sum.splits)
  from assms(1) a b obtain ps4 c4 t4 where
    c: "(if rebalance_weekly eng \<and> is_rebalance_day eng d
         then execute_weekly_rebalance eng ps3 pd c3 d ?ds ?today
         else Inr (ps3, c3, [])) = Inr (ps4, c4, t4)"
    unfolding day_step_def Let_def
    by (auto split: sum.splits)
  from assms(1) a b c have r: "ps' = ps4" "cash' = c4" "trades = t2 @ t3 @ t4" "d_cash rec = c4"
    unfolding day_step_def Let_def record_daily_status_def
    by (auto split: sum.splits if_splits)
  from check_stop_loss_settles [OF a assms(2,3) ledger_ok_update [OF assms(4)]]
  have s2: "settles cash t2 c2" and ok2: "ledger_ok ps2" by simp_all
  have s3: "settles c2 t3 c3 \<and> ledger_ok ps3"
  proof (cases "map_of sigs ?ds")
    case None
    with b ok2 show ?thesis by simp
  next
    case (Some bs)
    with b have "execute_buy_signals eng bs ps2 pd c2 d ?ds = Inr (ps3, c3, t3)" by simp
    from execute_buy_signals_settles [OF this ok2] show ?thesis .
  qed
  have s4: "settles c3 t4 c4 \<and> ledger_ok ps4"
  proof (cases "rebalance_weekly eng \<and> is_rebalance_day eng d")
    case True
    with c have "execute_weekly_rebalance eng ps3 pd c3 d ?ds ?today = Inr (ps4, c4, t4)"
      by simp
    from execute_weekly_rebalance_settles [OF this assms(2,3)] s3 show ?thesis by blast
  next
    case False
    with c s3 show ?thesis by auto
  qed
  from s3 s4 have "settles c2 (t3 @ t4) c4" by (blast intro: settles_append)
  from settles_append [OF s2 this] s4 r show ?thesis by simp
qed

lemma day_loop_settles:
  assumes "day_loop eng sigs pd dates ps cash h t = Inr (h', t')"
    and "commission_rate eng \<le> 1" and "prices_nonneg pd" and "ledger_ok ps"
  shows "\<exists>newh newt cashN. h' = h @ newh \<and> t' = t @ newt \<and> settles cash newt cashN
           \<and> (newh \<noteq> [] \<longrightarrow> d_cash (last newh) = cashN)
           \<and> (\<forall>r \<in> set newh. d_cash r \<in> set (balances cash newt))"
  using assms(1,4)
proof (induction dates arbitrary: ps cash h t)
  case Nil
  then have "h' = h" "t' = t" by simp_all
  then show ?case
    by (intro exI [of _ "[]"] exI [of _ cash]) simp
next
  case (Cons d dates)
  from Cons.prems(1) obtain ps1 cash1 rec tr where
    step: "day_step eng sigs pd d ps cash = Inr (ps1, cash1, rec, tr)"
    and rest: "day_loop eng sigs pd dates ps1 cash1 (h @ [rec]) (t @ tr) = Inr (h', t')"
    by (auto split: sum.splits prod.splits)
  from day_step_settles [OF step assms(2,3) Cons.prems(2)]
  have s1: "settles cash tr cash1" and ok1: "ledger_ok ps1" and rc: "d_cash rec = cash1"
    by simp_all
  from Cons.IH [OF rest ok1] obtain newh newt cashN where
    h': "h' = (h @ [rec]) @ newh" and t': "t' = (t @ tr) @ newt"
    and s2: "settles cash1 newt cashN"
    and l: "newh \<noteq> [] \<longrightarrow> d_cash (last newh) = cashN"
    and m: "\<forall>r \<in> set newh. d_cash r \<in> set (balances cash1 newt)"
    by blast
  from s1 have c1: "cash1 = cash + (\<Sum>x \<leftarrow> tr. settlement x)"
    unfolding settles_def by (rule conjunct1)
  from s2 have cN: "cashN = cash1 + (\<Sum>x \<leftarrow> newt. settlement x)"
    unfolding settles_def by (rule conjunct1)
  have "d_cash rec \<in> set (balances cash (tr @ newt))"
    unfolding balances_append rc c1 using last_balance [of cash tr] by blast
  moreover have "\<forall>r \<in> set newh. d_cash r \<in> set (balances cash (tr @ newt))"
    using m unfolding balances_append c1 by blast
  ultimately have m': "\<forall>r \<in> set (rec # newh). d_cash r \<in> set (balances cash (tr @ newt))"
    by simp
  have l': "rec # newh \<noteq> [] \<longrightarrow> d_cash (last (rec # newh)) = cashN"
  proof (cases "newh = []")
    case True
    then have "newt = newt" by simp
    from True rest h' have "length h' = Suc (length h)" by simp
    with day_loop_length [OF rest] have "dates = []" by simp
    with rest t' have "newt = []" by simp
    with cN have "cashN = cash1" by simp
    with True rc show ?thesis by simp
  next
    case False
    with l show ?thesis by simp
  qed
  have "h' = h @ (rec # newh)" "t' = t @ (tr @ newt)"
    using h' t' by simp_all
  with settles_append [OF s1 s2] l' m' show ?case
    by (intro exI [of _ "rec # newh"] exI [of _ "tr @ newt"] exI [of _ cashN]) blast
qed

lemma reject_unfunded:
  assumes "0 < n" and "map_of ps (s_code s) = None" and "close_on pd (s_code s) d = Some p"
    and "lot_shares (min (cash / real n) (cash * 0.2)) p = Inr sh"
    and "cash < p * real_of_int sh + p * real_of_int sh * commission_rate eng"
  shows "buy_loop eng pd d date_str n (s # rest) ps cash tr = buy_loop eng pd d date_str n rest ps cash tr"
  using assms by (simp add: Let_def)

text \<open>
  C9, as the code has it.  In a run with non-negative initial capital, non-negative closes
  and a commission rate of at most 1, the cash starts at the initial capital and every
  balance before, between and after the trades of the history, each settled as a BUY debit
  of gross plus commission or a SELL credit of gross minus commission, is non-negative;
  the cash of every daily record is one of these balances, and the cash of the last record
  is the initial capital plus all settlements.  Whatever the configuration, a candidate
  whose cost with commission exceeds the cash at hand is passed over: the loop goes on
  with the same ledger, the same cash and the same trades.
\<close>
theorem cash_never_negative:
  "(0 \<le> initial_capital eng \<and> commission_rate eng \<le> 1 \<and> prices_nonneg pd
      \<and> simulate eng sigs pd start_date end_date = Inr (all_dates, h, t)
     \<longrightarrow> hd (balances (initial_capital eng) t) = initial_capital eng
       \<and> (\<forall>b \<in> set (balances (initial_capital eng) t). 0 \<le> b)
       \<and> (\<forall>r \<in> set h. d_cash r \<in> set (balances (initial_capital eng) t) \<and> 0 \<le> d_cash r)
       \<and> d_cash (last h) = initial_capital eng + (\<Sum>x \<leftarrow> t. settlement x))
   \<and> (0 < n \<and> map_of ps (s_code s) = None \<and> close_on pd (s_code s) d = Some p
      \<and> lot_shares (min (cash / real n) (cash * 0.2)) p = Inr sh
      \<and> cash < p * real_of_int sh + p * real_of_int sh * commission_rate eng
     \<longrightarrow> buy_loop eng pd d date_str n (s # rest) ps cash tr
           = buy_loop eng pd d date_str n rest ps cash tr)"
proof (intro conjI impI)
  assume a: "0 \<le> initial_capital eng \<and> commission_rate eng \<le> 1 \<and> prices_nonneg pd
      \<and> simulate eng sigs pd start_date end_date = Inr (all_dates, h, t)"
  then have sim: "simulate eng sigs pd start_date end_date = Inr (all_dates, h, t)"
    and ic: "0 \<le> initial_capital eng" and cr: "commission_rate eng \<le> 1"
    and pn: "prices_nonneg pd" by simp_all
  from simulate_shape [OF sim] have hne: "h \<noteq> []" by auto
  from sim have "day_loop eng sigs pd all_dates [] (initial_capital eng) [] [] = Inr (h, t)"
    by (auto simp: simulate_def split: if_splits sum.splits prod.splits)
  from day_loop_settles [OF this cr pn] obtain cashN where
    s: "settles (initial_capital eng) t cashN"
    and l: "d_cash (last h) = cashN"
    and m: "\<forall>r \<in> set h. d_cash r \<in> set (balances (initial_capital eng) t)"
    using hne by (auto simp: ledger_ok_def)
  from s ic have nn: "\<forall>b \<in> set (balances (initial_capital eng) t). 0 \<le> b"
    unfolding settles_def by blast
  from s have e: "cashN = initial_capital eng + (\<Sum>x \<leftarrow> t. settlement x)"
    unfolding settles_def by (rule conjunct1)
  show "hd (balances (initial_capital eng) t) = initial_capital eng"
    by (cases t) simp_all
  show "\<forall>b \<in> set (balances (initial_capital eng) t). 0 \<le> b" by (rule nn)
  show "\<forall>r \<in> set h. d_cash r \<in> set (balances (initial_capital eng) t) \<and> 0 \<le> d_cash r"
    using m nn by blast
  show "d_cash (last h) = initial_capital eng + (\<Sum>x \<leftarrow> t. settlement x)"
    using l e by simp
next
  assume "0 < n \<and> map_of ps (s_code s) = None \<and> close_on pd (s_code s) d = Some p
      \<and> lot_shares (min (cash / real n) (cash * 0.2)) p = Inr sh
      \<and> cash < p * real_of_int sh + p * real_of_int sh * commission_rate eng"
  then show "buy_loop eng pd d date_str n (s # rest) ps cash tr
           = buy_loop eng pd d date_str n rest ps cash tr"
    using reject_unfunded [of n ps s pd d p cash sh eng date_str rest tr] by blast
qed

text \<open>
  A one-day run that buys 20000 shares of A, and an entry at a commission rate of 5 whose
  cost of 1200 exceeds the cash of 1000 and is rejected.
\<close>
theorem cash_never_negative_witness:
  "simulate \<lparr>initial_capital = 1000000, stop_loss_pct = 0.04, commission_rate = 0.0003,
               rebalance_weekly = False, rebalance_day = 0\<rparr>
        [(''2023-01-02'', [\<lparr>s_code = ''A'', s_name = Some ''a''\<rparr>])]
        [(''A'', Some [(738522, 10)])] None None
      = Inr ([738522],
             [\<lparr>d_date = ''2023-01-02'', d_cash = 799940, d_positions_count = 1,
               d_portfolio_value = 999940, d_return = - (3 / 500)\<rparr>],
             [\<lparr>t_date = ''2023-01-02'', t_code = ''A'', t_name = Some ''a'', t_action = BUY,
               t_reason = SignalBuy, t_price = 10, t_shares = 20000, t_amount = 200000,
               t_commission = 60, t_pnl = 0, t_pnl_pct = 0, t_holding_days = 0\<rparr>])
   \<and> balances 1000000
        [\<lparr>t_date = ''2023-01-02'', t_code = ''A'', t_name = Some ''a'', t_action = BUY,
          t_reason = SignalBuy, t_price = 10, t_shares = 20000, t_amount = 200000,
          t_commission = 60, t_pnl = 0, t_pnl_pct = 0, t_holding_days = 0\<rparr>]
      = [1000000, 799940]
   \<and> lot_shares (min (1000 / real (1::nat)) (1000 * 0.2)) 1 = Inr 200
   \<and> (1000::real) < 1 * real_of_int 200 + 1 * real_of_int 200 * 5
   \<and> execute_buy_signals
        \<lparr>initial_capital = 1000, stop_loss_pct = 0.04, commission_rate = 5,
         rebalance_weekly = False, rebalance_day = 0\<rparr>
        [\<lparr>s_code = ''A'', s_name = Some ''a''\<rparr>] [] [(''A'', Some [(738522, 1)])] 1000 738522
        ''2023-01-02''
      = Inr ([], 1000, [])"
proof -
  let ?eng = "\<lparr>initial_capital = 1000000, stop_loss_pct = 0.04, commission_rate = 0.0003,
               rebalance_weekly = False, rebalance_day = 0\<rparr>"
  let ?eng5 = "\<lparr>initial_capital = 1000, stop_loss_pct = 0.04, commission_rate = 5,
         rebalance_weekly = False, rebalance_day = 0\<rparr>"
  let ?s = "\<lparr>s_code = ''A'', s_name = Some ''a''\<rparr>"
  let ?t = "[\<lparr>t_date = ''2023-01-02'', t_code = ''A'', t_name = Some ''a'', t_action = BUY,
          t_reason = SignalBuy, t_price = 10, t_shares = 20000, t_amount = 200000,
          t_commission = 60, t_pnl = 0, t_pnl_pct = 0, t_holding_days = 0\<rparr>]"
  have pn: "prices_nonneg [(''A'', Some [(738522, 10)])]"
    by (simp add: prices_nonneg_def)
  have sim: "simulate ?eng [(''2023-01-02'', [?s])] [(''A'', Some [(738522, 10)])] None None
      = Inr ([738522],
             [\<lparr>d_date = ''2023-01-02'', d_cash = 799940, d_positions_count = 1,
               d_portfolio_value = 999940, d_return = - (3 / 500)\<rparr>], ?t)"
    by (simp add: calendar_defs engine_defs Let_def)
  have bal: "balances 1000000 ?t = [1000000, 799940]"
    by (simp add: settlement_def)
  have ls: "lot_shares (min (1000 / real (1::nat)) (1000 * 0.2)) 1 = Inr 200"
    by (simp add: lot_shares_def)
  have over: "(1000::real) < 1 * real_of_int 200 + 1 * real_of_int 200 * 5" by simp
  have c: "close_on [(''A'', Some [(738522, 1)])] (s_code ?s) 738522 = Some 1"
    by (simp add: close_on_def)
  have nn: "\<forall>b \<in> set (balances 1000000 ?t). 0 \<le> b"
    using cash_never_negative
            [where eng = ?eng and pd = "[(''A'', Some [(738522, 10)])]"
               and sigs = "[(''2023-01-02'', [?s])]" and start_date = None and end_date = None
               and all_dates = "[738522]" and t = ?t
               and h = "[\<lparr>d_date = ''2023-01-02'', d_cash = 799940, d_positions_count = 1,
                          d_portfolio_value = 999940, d_return = - (3 / 500)\<rparr>]"]
          pn sim
    by simp
  have "buy_loop ?eng5 [(''A'', Some [(738522, 1)])] 738522 ''2023-01-02'' 1 (?s # []) [] 1000 []
        = buy_loop ?eng5 [(''A'', Some [(738522, 1)])] 738522 ''2023-01-02'' 1 [] [] 1000 []"
    using cash_never_negative
            [where eng = ?eng5 and pd = "[(''A'', Some [(738522, 1)])]" and n = 1 and ps = "[]"
               and s = ?s and d = 738522 and p = 1 and cash = 1000 and sh = 200
               and date_str = "''2023-01-02''" and rest = "[]" and tr = "[]"]
          ls over c
    by simp
  then have rej: "execute_buy_signals ?eng5 [?s] [] [(''A'', Some [(738522, 1)])] 1000 738522
        ''2023-01-02'' = Inr ([], 1000, [])"
    by (simp add: execute_buy_signals_def)
  from nn sim bal ls over rej show ?thesis by blast
qed

text \<open>
  C9 as stated fails: with initial capital 1000, a close of 1 and a commission rate of 3,
  the signal entry on a rebalance Monday costs 800, and the sale that the rebalance makes on
  the same day credits 200 - 600: the cash goes from 200 to -200.
\<close>
theorem cash_negative_with_commission_above_one:
  "(0::real) \<le> 1000 \<and> prices_nonneg [(''A'', Some [(738522, 1)])]
   \<and> (case simulate \<lparr>initial_capital = 1000, stop_loss_pct = 0.04, commission_rate = 3,
                     rebalance_weekly = True, rebalance_day = 0\<rparr>
          [(''2023-01-02'', [\<lparr>s_code = ''A'', s_name = Some ''a''\<rparr>])]
          [(''A'', Some [(738522, 1)])] None None of
        Inl e \<Rightarrow> None
      | Inr (ds, h, t) \<Rightarrow>
          Some (map d_cash h, map (\<lambda>x. (t_action x, t_amount x, t_commission x)) t,
                balances 1000 t))
     = Some ([- 200], [(BUY, 200, 600), (SELL, 200, 600)], [1000, 200, - 200])"
  by (simp add: prices_nonneg_def settlement_def calendar_defs engine_defs Let_def)


section \<open>A rebalance day with one signal\<close>














end
